theory Spec2Isabelle
  imports Complex_Main "HOL-Library.Multiset" "HOL-Library.Log_Nat"
begin

section \<open>JavaScript values used by server.js\<close>

text \<open>
  A JavaScript Number is \<open>NaN\<close>, one of the two infinities, or a finite value. Finite
  values are kept as exact rationals: the rounding of IEEE-754 doubles, overflow to an
  infinity and the sign of zero are not part of this model (both zeros are falsy, and
  every number read from a row passes through \<open>|| 0\<close>).
\<close>

datatype jsnum = NaN | PosInf | NegInf | Fin rat

text \<open>Truthiness of a Number, as \<open>||\<close> tests it: \<open>NaN\<close> and zero are falsy.\<close>

fun truthy_num :: "jsnum \<Rightarrow> bool" where
  "truthy_num NaN = False"
| "truthy_num (Fin q) = (q \<noteq> 0)"
| "truthy_num PosInf = True"
| "truthy_num NegInf = True"

text \<open>\<open>a || b\<close> on Numbers.\<close>

definition js_or :: "jsnum \<Rightarrow> jsnum \<Rightarrow> jsnum" where
  "js_or a b = (if truthy_num a then a else b)"

text \<open>\<open>a + b\<close> and \<open>a - b\<close> on Numbers.\<close>

fun add_num :: "jsnum \<Rightarrow> jsnum \<Rightarrow> jsnum" where
  "add_num NaN b = NaN"
| "add_num a NaN = NaN"
| "add_num PosInf NegInf = NaN"
| "add_num NegInf PosInf = NaN"
| "add_num PosInf b = PosInf"
| "add_num NegInf b = NegInf"
| "add_num (Fin x) PosInf = PosInf"
| "add_num (Fin x) NegInf = NegInf"
| "add_num (Fin x) (Fin y) = Fin (x + y)"

fun neg_num :: "jsnum \<Rightarrow> jsnum" where
  "neg_num NaN = NaN"
| "neg_num PosInf = NegInf"
| "neg_num NegInf = PosInf"
| "neg_num (Fin x) = Fin (- x)"

definition sub_num :: "jsnum \<Rightarrow> jsnum \<Rightarrow> jsnum" where
  "sub_num a b = add_num a (neg_num b)"

text \<open>
  A value read from a result row or bound as a query parameter: \<open>null\<close>, a Number or a
  string (mysql2 delivers DECIMAL columns as strings).
\<close>

datatype jsval = JNull | JNum jsnum | JStr string

subsection \<open>Characters and strings\<close>

definition is_digit :: "char \<Rightarrow> bool" where
  "is_digit c = (48 \<le> (of_char c :: nat) \<and> (of_char c :: nat) \<le> 57)"

definition digit_val :: "char \<Rightarrow> nat" where
  "digit_val c = (of_char c :: nat) - 48"

definition is_hex :: "char \<Rightarrow> bool" where
  "is_hex c = (is_digit c
     \<or> (65 \<le> (of_char c :: nat) \<and> (of_char c :: nat) \<le> 70)
     \<or> (97 \<le> (of_char c :: nat) \<and> (of_char c :: nat) \<le> 102))"

definition hex_val :: "char \<Rightarrow> nat" where
  "hex_val c = (if is_digit c then (of_char c :: nat) - 48
                else if (of_char c :: nat) \<le> 70 then (of_char c :: nat) - 55
                else (of_char c :: nat) - 87)"

text \<open>The value of a digit string in a radix, most significant digit first.\<close>

definition digits_val :: "nat \<Rightarrow> (char \<Rightarrow> nat) \<Rightarrow> string \<Rightarrow> nat" where
  "digits_val radix dv ds = foldl (\<lambda>n c. radix * n + dv c) 0 ds"

text \<open>
  White space skipped by \<open>parseInt\<close> and \<open>parseFloat\<close>: tab, line feed, vertical tab, form
  feed, carriage return and space. Strings are byte strings here, so the white space
  characters beyond ASCII are not recognised.
\<close>

definition is_space :: "char \<Rightarrow> bool" where
  "is_space c = ((of_char c :: nat) \<in> {9, 10, 11, 12, 13, 32})"

text \<open>
  \<open>String.prototype.toLowerCase\<close>, on the ASCII letters. The handlers compare its result
  with \<open>airtel\<close>, \<open>mtn\<close> and \<open>both\<close> only, and no character outside ASCII has a lower-case
  form that is one of the letters of these words.
\<close>

definition lower_char :: "char \<Rightarrow> char" where
  "lower_char c = (if 65 \<le> (of_char c :: nat) \<and> (of_char c :: nat) \<le> 90
                   then char_of ((of_char c :: nat) + 32) else c)"

definition toLowerCase :: "string \<Rightarrow> string" where
  "toLowerCase s = map lower_char s"

subsection \<open>parseInt and parseFloat\<close>

text \<open>
  \<open>parseInt(s)\<close> with no radix: skip white space, read a sign, switch to radix 16 after
  \<open>0x\<close> or \<open>0X\<close>, take the longest run of digits; no digit gives \<open>NaN\<close>.
\<close>

definition parseInt_str :: "string \<Rightarrow> jsnum" where
  "parseInt_str s =
     (let t = dropWhile is_space s;
          neg = (t \<noteq> [] \<and> hd t = CHR ''-'');
          u = (if t \<noteq> [] \<and> (hd t = CHR ''+'' \<or> hd t = CHR ''-'') then tl t else t);
          hex = (take 2 u = ''0x'' \<or> take 2 u = ''0X'');
          v = (if hex then drop 2 u else u);
          ds = takeWhile (if hex then is_hex else is_digit) v;
          m = (if hex then digits_val 16 hex_val ds else digits_val 10 digit_val ds)
      in if ds = [] then NaN
         else Fin (of_int (if neg then - int m else int m)))"

text \<open>
  \<open>parseFloat(s)\<close>: skip white space, read a sign, then \<open>Infinity\<close> or the longest decimal
  literal: digits, an optional fraction, and an exponent part only when it has a digit.
  A literal needs a digit before or after the point; none gives \<open>NaN\<close>.
\<close>

definition parseFloat_str :: "string \<Rightarrow> jsnum" where
  "parseFloat_str s =
     (let t = dropWhile is_space s;
          neg = (t \<noteq> [] \<and> hd t = CHR ''-'');
          u = (if t \<noteq> [] \<and> (hd t = CHR ''+'' \<or> hd t = CHR ''-'') then tl t else t)
      in if take 8 u = ''Infinity'' then (if neg then NegInf else PosInf)
         else
           (let ip = takeWhile is_digit u;
                r1 = dropWhile is_digit u;
                point = (r1 \<noteq> [] \<and> hd r1 = CHR ''.'');
                fp = (if point then takeWhile is_digit (tl r1) else []);
                r2 = (if point then dropWhile is_digit (tl r1) else r1);
                x = (if r2 \<noteq> [] \<and> (hd r2 = CHR ''e'' \<or> hd r2 = CHR ''E'') then tl r2 else []);
                eneg = (x \<noteq> [] \<and> hd x = CHR ''-'');
                y = (if x \<noteq> [] \<and> (hd x = CHR ''+'' \<or> hd x = CHR ''-'') then tl x else x);
                es = takeWhile is_digit y;
                e = digits_val 10 digit_val es;
                m = (of_nat (digits_val 10 digit_val (ip @ fp)) :: rat) / 10 ^ length fp;
                v = (if eneg then m / 10 ^ e else m * 10 ^ e)
            in if ip = [] \<and> fp = [] then NaN
               else Fin (if neg then - v else v)))"

text \<open>
  \<open>parseFloat(v)\<close> and \<open>parseInt(v)\<close> first turn \<open>v\<close> into a string. \<open>null\<close> becomes
  \<open>"null"\<close>. A Number is printed and read back: \<open>parseFloat\<close> returns it unchanged;
  \<open>parseInt\<close> reads the digits before the point, or, when the Number is printed with an
  exponent (magnitude at least \<open>10^21\<close> or below \<open>10^-6\<close>), its leading digit.
\<close>

definition lead_digit :: "rat \<Rightarrow> int" where
  "lead_digit q =
     (if 1 \<le> q then (let n = nat \<lfloor>q\<rfloor> in int (n div 10 ^ (floorlog 10 n - 1)))
      else (let k = floorlog 10 (nat (\<lceil>1 / q\<rceil> - 1)) in \<lfloor>q * 10 ^ k\<rfloor>))"

definition parseInt_num :: "jsnum \<Rightarrow> jsnum" where
  "parseInt_num n =
     (case n of
        Fin q \<Rightarrow>
          (if q = 0 then Fin 0
           else if 1 / 10 ^ 6 \<le> \<bar>q\<bar> \<and> \<bar>q\<bar> < 10 ^ 21 then Fin (of_int (if q < 0 then - \<lfloor>\<bar>q\<bar>\<rfloor> else \<lfloor>\<bar>q\<bar>\<rfloor>))
           else Fin (of_int (if q < 0 then - lead_digit \<bar>q\<bar> else lead_digit \<bar>q\<bar>)))
      | _ \<Rightarrow> NaN)"

fun parseFloat :: "jsval \<Rightarrow> jsnum" where
  "parseFloat JNull = parseFloat_str ''null''"
| "parseFloat (JNum n) = n"
| "parseFloat (JStr s) = parseFloat_str s"

fun parseInt :: "jsval \<Rightarrow> jsnum" where
  "parseInt JNull = parseInt_str ''null''"
| "parseInt (JNum n) = parseInt_num n"
| "parseInt (JStr s) = parseInt_str s"

section \<open>Result normalisation: convertToDashboardFormat\<close>

text \<open>
  A row of \<open>airtel_loan_data\<close> or \<open>MTN_loan_data\<close> as the loan queries select it: the 26
  columns of the SELECT list, each field \<open>row.c\<close> named \<open>row_c\<close>. A DATE column is its
  day number, a DATETIME column its number of seconds, a text column a string; \<open>None\<close>
  is SQL NULL. The numeric columns are whatever the driver delivers for them.
\<close>

record raw_row =
  row_load_date :: "int option"
  row_loan_type :: "string option"
  row_denom :: jsval
  row_gross_lent :: jsval
  row_sfee_lent :: jsval
  row_lending_txns :: jsval
  row_late_fees_charged :: jsval
  row_principal_recovered :: jsval
  row_sfee_recovered :: jsval
  row_late_fees_recovered :: jsval
  row_recovery_txns :: jsval
  row_interest_fees_charged :: jsval
  row_interest_fees_recovered :: jsval
  row_setup_fees_charged :: jsval
  row_setup_fees_recovered :: jsval
  row_daily_fees_charged :: jsval
  row_daily_fees_recovered :: jsval
  row_country :: "string option"
  row_telco :: "string option"
  row_qualified_base :: jsval
  row_overall_actives_daily :: jsval
  row_overall_actives_wtd :: jsval
  row_overall_actives_mtd :: jsval
  row_overall_actives_ytd :: jsval
  row_processed_at :: "int option"
  row_file_source :: "string option"

text \<open>
  The object built for one row. \<open>date\<close> stands for the string
  \<open>moment(row.load_date).format('YYYY-MM-DD')\<close>: the day number it renders, or \<open>None\<close>
  for the text \<open>Invalid date\<close> that a null date gives. \<open>processed_at\<close> stands for the
  formatted timestamp, \<open>None\<close> for the empty string.
\<close>

record loan_record =
  date :: "int option"
  telco :: string
  country :: string
  loan_type :: string
  denom :: jsnum
  qualified_base :: jsnum
  overall_actives_daily :: jsnum
  overall_actives_wtd :: jsnum
  overall_actives_mtd :: jsnum
  overall_actives_ytd :: jsnum
  lending_transactions :: jsnum
  lending_txns :: jsnum
  gross_lent :: jsnum
  principal_lent :: jsnum
  service_fee_lent :: jsnum
  sfee_lent :: jsnum
  late_fees_charged :: jsnum
  setup_fees_charged :: jsnum
  interest_fees_charged :: jsnum
  daily_fees_charged :: jsnum
  recovery_transactions :: jsnum
  recovery_txns :: jsnum
  principal_recovered :: jsnum
  service_fee_recovered :: jsnum
  sfee_recovered :: jsnum
  late_fees_recovered :: jsnum
  setup_fees_recovered :: jsnum
  interest_fees_recovered :: jsnum
  daily_fees_recovered :: jsnum
  gross_recovered :: jsnum
  unique_users :: jsnum
  overall_unique_users :: jsnum
  fx_rate :: jsnum
  processed_at :: "int option"
  file_source :: string

text \<open>\<open>s || ''\<close> on a string column.\<close>

definition or_empty :: "string option \<Rightarrow> string" where
  "or_empty v = (case v of None \<Rightarrow> [] | Some s \<Rightarrow> s)"

text \<open>\<open>parseFloat(v) || 0\<close> and \<open>parseInt(v) || 0\<close>.\<close>

definition float_or_0 :: "jsval \<Rightarrow> jsnum" where
  "float_or_0 v = js_or (parseFloat v) (Fin 0)"

definition int_or_0 :: "jsval \<Rightarrow> jsnum" where
  "int_or_0 v = js_or (parseInt v) (Fin 0)"

text \<open>The body of the \<open>rows.map\<close> callback, field by field in the order of the source.\<close>

definition convert_row :: "raw_row \<Rightarrow> loan_record" where
  "convert_row row =
     \<lparr> date = row_load_date row,
       telco = or_empty (row_telco row),
       country = or_empty (row_country row),
       loan_type = or_empty (row_loan_type row),
       denom = int_or_0 (row_denom row),
       qualified_base = int_or_0 (row_qualified_base row),
       overall_actives_daily = int_or_0 (row_overall_actives_daily row),
       overall_actives_wtd = float_or_0 (row_overall_actives_wtd row),
       overall_actives_mtd = int_or_0 (row_overall_actives_mtd row),
       overall_actives_ytd = int_or_0 (row_overall_actives_ytd row),
       lending_transactions = float_or_0 (row_lending_txns row),
       lending_txns = float_or_0 (row_lending_txns row),
       gross_lent = float_or_0 (row_gross_lent row),
       principal_lent = sub_num (float_or_0 (row_gross_lent row)) (float_or_0 (row_sfee_lent row)),
       service_fee_lent = float_or_0 (row_sfee_lent row),
       sfee_lent = float_or_0 (row_sfee_lent row),
       late_fees_charged = float_or_0 (row_late_fees_charged row),
       setup_fees_charged = float_or_0 (row_setup_fees_charged row),
       interest_fees_charged = float_or_0 (row_interest_fees_charged row),
       daily_fees_charged = float_or_0 (row_daily_fees_charged row),
       recovery_transactions = float_or_0 (row_recovery_txns row),
       recovery_txns = float_or_0 (row_recovery_txns row),
       principal_recovered = float_or_0 (row_principal_recovered row),
       service_fee_recovered = float_or_0 (row_sfee_recovered row),
       sfee_recovered = float_or_0 (row_sfee_recovered row),
       late_fees_recovered = float_or_0 (row_late_fees_recovered row),
       setup_fees_recovered = float_or_0 (row_setup_fees_recovered row),
       interest_fees_recovered = float_or_0 (row_interest_fees_recovered row),
       daily_fees_recovered = float_or_0 (row_daily_fees_recovered row),
       gross_recovered =
         add_num (add_num (add_num (add_num (add_num
           (float_or_0 (row_principal_recovered row))
           (float_or_0 (row_sfee_recovered row)))
           (float_or_0 (row_late_fees_recovered row)))
           (float_or_0 (row_setup_fees_recovered row)))
           (float_or_0 (row_interest_fees_recovered row)))
           (float_or_0 (row_daily_fees_recovered row)),
       unique_users = int_or_0 (row_overall_actives_daily row),
       overall_unique_users = int_or_0 (row_overall_actives_ytd row),
       fx_rate = Fin 1,
       processed_at = row_processed_at row,
       file_source = or_empty (row_file_source row) \<rparr>"

definition convertToDashboardFormat :: "raw_row list \<Rightarrow> loan_record list" where
  "convertToDashboardFormat rows = map convert_row rows"

section \<open>The data store and the statements sent to it\<close>

text \<open>
  The handlers build SQL text and hand it to \<open>pool.query\<close> with a parameter array. The
  text is modelled by its structure and given the meaning the SQL states; the engine
  itself is outside the repository. Text is compared bytewise (a binary collation), and
  date arithmetic that leaves the range of the DATE type is not modelled.
\<close>

datatype table_name = Airtel_loan_data | MTN_loan_data

text \<open>
  The entries of \<open>whereConditions\<close>:
  \<^item> \<open>DateBetween\<close>: \<open>load_date BETWEEN ? AND ?\<close>
  \<^item> \<open>DateSince\<close>: \<open>load_date >= DATE_SUB(CURDATE(), INTERVAL ? DAY)\<close>
  \<^item> \<open>LoanTypeLike\<close>: \<open>loan_type LIKE ?\<close>
  \<^item> \<open>TelcoAirtel\<close>: \<open>(telco = 'Airtel' OR telco = 'airtel')\<close>
  \<^item> \<open>TelcoMTN\<close>: \<open>(telco = 'MTN' OR telco = 'mtn')\<close>
\<close>

datatype cond = DateBetween | DateSince | LoanTypeLike | TelcoAirtel | TelcoMTN

text \<open>
  The three statements of the modelled handlers. \<open>LoanSelect t conds with_type\<close> is the
  loan query on table \<open>t\<close> with \<open>conds\<close> joined by AND, the latest-snapshot subquery and
  \<open>LIMIT ?\<close>; \<open>with_type\<close> says whether the ordering is \<open>load_date DESC, loan_type\<close>, as
  in \<open>/api/loan-data\<close>, or \<open>load_date DESC\<close> alone, as in \<open>/api/loan-data/:loanType\<close>.
\<close>

datatype statement =
    LoanSelect table_name "cond list" bool
  | SummarySelect table_name
  | NplSelect

type_synonym sql_call = "statement \<times> jsval list"

datatype db_error = SqlError

text \<open>A row of the NPL statement's result: its fourteen selected columns.\<close>

record npl_row =
  npl_loan_type :: "string option"
  npl_total_balance :: jsval
  npl_within_tenure :: jsval
  npl_arrears_30_days :: jsval
  npl_arrears_31_60_days :: jsval
  npl_arrears_61_90_days :: jsval
  npl_arrears_91_120_days :: jsval
  npl_arrears_121_150_days :: jsval
  npl_arrears_151_180_days :: jsval
  npl_arrears_181_plus_days :: jsval
  npl_arrears_percentage :: jsval
  npl_report_date :: "int option"
  npl_net_recovered_value :: jsval
  npl_unrecovered_percentage_net :: jsval

text \<open>
  The store: the rows of each loan table in storage order, the engine's current date,
  its reading of a string as a DATE (\<open>None\<close> when it yields NULL), and the rows that the
  FROM, JOIN and WHERE parts of the NPL statement produce, before its ORDER BY.
\<close>

record db =
  loan_table :: "table_name \<Rightarrow> raw_row list"
  curdate :: int
  sql_date :: "string \<Rightarrow> int option"
  npl_joined :: "npl_row list"

subsection \<open>Ordering\<close>

text \<open>
  A stable insertion sort: \<open>later x y\<close> says that \<open>x\<close> has to come after \<open>y\<close>. It serves
  for ORDER BY (rows that the ordering does not separate keep storage order, which the
  engine leaves open) and for \<open>Array.prototype.sort\<close>, which is stable.
\<close>

fun insert_before :: "('a \<Rightarrow> 'a \<Rightarrow> bool) \<Rightarrow> 'a \<Rightarrow> 'a list \<Rightarrow> 'a list" where
  "insert_before later x [] = [x]"
| "insert_before later x (y # ys) =
     (if later x y then y # insert_before later x ys else x # y # ys)"

definition stable_sort :: "('a \<Rightarrow> 'a \<Rightarrow> bool) \<Rightarrow> 'a list \<Rightarrow> 'a list" where
  "stable_sort later xs = foldr (insert_before later) xs []"

fun str_less :: "string \<Rightarrow> string \<Rightarrow> bool" where
  "str_less [] [] = False"
| "str_less [] (b # bs) = True"
| "str_less (a # as) [] = False"
| "str_less (a # as) (b # bs) =
     ((of_char a :: nat) < of_char b \<or> (a = b \<and> str_less as bs))"

text \<open>NULL sorts before every value in ascending order.\<close>

fun null_less :: "('a \<Rightarrow> 'a \<Rightarrow> bool) \<Rightarrow> 'a option \<Rightarrow> 'a option \<Rightarrow> bool" where
  "null_less lt None (Some b) = True"
| "null_less lt (Some a) (Some b) = lt a b"
| "null_less lt a None = False"

text \<open>\<open>ORDER BY load_date DESC, loan_type\<close>, or \<open>ORDER BY load_date DESC\<close>.\<close>

definition order_later :: "bool \<Rightarrow> raw_row \<Rightarrow> raw_row \<Rightarrow> bool" where
  "order_later with_type a b =
     (null_less (<) (row_load_date a) (row_load_date b)
      \<or> (with_type \<and> row_load_date a = row_load_date b
          \<and> null_less str_less (row_loan_type b) (row_loan_type a)))"

subsection \<open>The loan statement\<close>

text \<open>\<open>text LIKE pattern\<close>: \<open>%\<close> is any run of characters, \<open>_\<close> any one, a backslash escapes.\<close>

fun sql_like :: "string \<Rightarrow> string \<Rightarrow> bool" where
  "sql_like [] s = (s = [])"
| "sql_like (p # ps) [] = (p = CHR ''%'' \<and> sql_like ps [])"
| "sql_like (p # ps) (c # cs) =
     (if p = CHR ''%'' then sql_like ps (c # cs) \<or> sql_like (p # ps) cs
      else if p = CHR ''_'' then sql_like ps cs
      else if p = CHR 0x5C then
        (case ps of [] \<Rightarrow> c = p \<and> cs = [] | e # es \<Rightarrow> c = e \<and> sql_like es cs)
      else c = p \<and> sql_like ps cs)"

fun cond_arity :: "cond \<Rightarrow> nat" where
  "cond_arity DateBetween = 2"
| "cond_arity DateSince = 1"
| "cond_arity LoanTypeLike = 1"
| "cond_arity TelcoAirtel = 0"
| "cond_arity TelcoMTN = 0"

text \<open>The placeholders take the parameters from left to right.\<close>

fun bind_params :: "cond list \<Rightarrow> jsval list \<Rightarrow> ((cond \<times> jsval list) list \<times> jsval list) option" where
  "bind_params [] ps = Some ([], ps)"
| "bind_params (c # cs) ps =
     (if length ps < cond_arity c then None
      else (case bind_params cs (drop (cond_arity c) ps) of
              None \<Rightarrow> None
            | Some (bs, rest) \<Rightarrow> Some ((c, take (cond_arity c) ps) # bs, rest)))"

text \<open>
  The parameters a condition accepts: strings for the dates and the pattern, a finite
  number for the interval. A \<open>NaN\<close> or an infinity is written into the text as a bare
  word, which the engine rejects; the handlers bind no other kind of value.
\<close>

fun cond_ok :: "cond \<times> jsval list \<Rightarrow> bool" where
  "cond_ok (DateBetween, [JStr a, JStr b]) = True"
| "cond_ok (DateSince, [JNum (Fin n)]) = True"
| "cond_ok (LoanTypeLike, [JStr p]) = True"
| "cond_ok (TelcoAirtel, []) = True"
| "cond_ok (TelcoMTN, []) = True"
| "cond_ok (c, ps) = False"

text \<open>A condition on a row; a comparison with NULL is not true.\<close>

fun eval_cond :: "db \<Rightarrow> raw_row \<Rightarrow> cond \<times> jsval list \<Rightarrow> bool" where
  "eval_cond d r (DateBetween, [JStr a, JStr b]) =
     (case (row_load_date r, sql_date d a, sql_date d b) of
        (Some x, Some lo, Some hi) \<Rightarrow> lo \<le> x \<and> x \<le> hi
      | _ \<Rightarrow> False)"
| "eval_cond d r (DateSince, [JNum (Fin n)]) =
     (case row_load_date r of Some x \<Rightarrow> curdate d - \<lfloor>n\<rfloor> \<le> x | None \<Rightarrow> False)"
| "eval_cond d r (LoanTypeLike, [JStr p]) =
     (case row_loan_type r of Some s \<Rightarrow> sql_like p s | None \<Rightarrow> False)"
| "eval_cond d r (TelcoAirtel, []) = (row_telco r = Some ''Airtel'' \<or> row_telco r = Some ''airtel'')"
| "eval_cond d r (TelcoMTN, []) = (row_telco r = Some ''MTN'' \<or> row_telco r = Some ''mtn'')"
| "eval_cond d r (c, ps) = False"

text \<open>
  The correlated subquery: \<open>t2.load_date = t1.load_date AND t2.loan_type = t1.loan_type
  AND t2.denom = t1.denom\<close>, then \<open>MAX(t2.processed_at)\<close> over the rows of the same table,
  which skips NULL and is NULL when nothing is left.
\<close>

definition same_key :: "raw_row \<Rightarrow> raw_row \<Rightarrow> bool" where
  "same_key t2 t1 =
     (row_load_date t2 \<noteq> None \<and> row_load_date t2 = row_load_date t1
      \<and> row_loan_type t2 \<noteq> None \<and> row_loan_type t2 = row_loan_type t1
      \<and> row_denom t2 \<noteq> JNull \<and> row_denom t2 = row_denom t1)"

fun sql_max :: "int option list \<Rightarrow> int option" where
  "sql_max [] = None"
| "sql_max (None # vs) = sql_max vs"
| "sql_max (Some v # vs) = (case sql_max vs of None \<Rightarrow> Some v | Some w \<Rightarrow> Some (max v w))"

definition latest_snapshot :: "raw_row list \<Rightarrow> raw_row \<Rightarrow> bool" where
  "latest_snapshot tbl t1 =
     (row_processed_at t1 \<noteq> None
      \<and> row_processed_at t1 = sql_max (map row_processed_at (filter (\<lambda>t2. same_key t2 t1) tbl)))"

text \<open>\<open>LIMIT ?\<close> takes the one parameter that is left; it has to be a number that is not negative.\<close>

fun limit_param :: "jsval list \<Rightarrow> nat option" where
  "limit_param [JNum (Fin l)] = (if l < 0 then None else Some (nat \<lfloor>l\<rfloor>))"
| "limit_param ps = None"

definition loan_select :: "db \<Rightarrow> table_name \<Rightarrow> cond list \<Rightarrow> bool \<Rightarrow> jsval list \<Rightarrow> db_error + raw_row list" where
  "loan_select d t conds with_type params =
     (case bind_params conds params of
        None \<Rightarrow> Inl SqlError
      | Some (bs, rest) \<Rightarrow>
          (if \<not> list_all cond_ok bs then Inl SqlError
           else (case limit_param rest of
                   None \<Rightarrow> Inl SqlError
                 | Some n \<Rightarrow>
                     Inr (take n
                           (stable_sort (order_later with_type)
                             (filter (\<lambda>r. list_all (eval_cond d r) bs
                                          \<and> latest_snapshot (loan_table d t) r)
                                (loan_table d t)))))))"

subsection \<open>The summary statement\<close>

text \<open>
  A row of the summary statement's result, as SQL values: COUNT, six SUMs, an AVG and a
  MAX per \<open>(loan_type, telco)\<close> group. An aggregate over no value is NULL.
\<close>

record summary_row =
  s_loan_type :: "string option"
  s_record_count :: nat
  s_total_gross_lent :: "rat option"
  s_total_principal_recovered :: "rat option"
  s_total_service_fee_recovered :: "rat option"
  s_total_late_fees_recovered :: "rat option"
  s_total_lending_transactions :: "rat option"
  s_total_recovery_transactions :: "rat option"
  s_avg_qualified_base :: "rat option"
  s_latest_date :: "int option"
  s_telco :: "string option"

text \<open>The stored number that a delivered cell stands for.\<close>

definition cell_num :: "jsval \<Rightarrow> rat option" where
  "cell_num v = (case parseFloat v of Fin x \<Rightarrow> Some x | _ \<Rightarrow> None)"

definition sql_sum :: "rat option list \<Rightarrow> rat option" where
  "sql_sum vs = (let xs = concat (map (\<lambda>v. case v of None \<Rightarrow> [] | Some x \<Rightarrow> [x]) vs)
                 in if xs = [] then None else Some (sum_list xs))"

definition sql_avg :: "rat option list \<Rightarrow> rat option" where
  "sql_avg vs = (let xs = concat (map (\<lambda>v. case v of None \<Rightarrow> [] | Some x \<Rightarrow> [x]) vs)
                 in if xs = [] then None else Some (sum_list xs / of_nat (length xs)))"

definition group_row :: "string option \<times> string option \<Rightarrow> raw_row list \<Rightarrow> summary_row" where
  "group_row k rows =
     \<lparr> s_loan_type = fst k,
       s_record_count = length rows,
       s_total_gross_lent = sql_sum (map (cell_num \<circ> row_gross_lent) rows),
       s_total_principal_recovered = sql_sum (map (cell_num \<circ> row_principal_recovered) rows),
       s_total_service_fee_recovered = sql_sum (map (cell_num \<circ> row_sfee_recovered) rows),
       s_total_late_fees_recovered = sql_sum (map (cell_num \<circ> row_late_fees_recovered) rows),
       s_total_lending_transactions = sql_sum (map (cell_num \<circ> row_lending_txns) rows),
       s_total_recovery_transactions = sql_sum (map (cell_num \<circ> row_recovery_txns) rows),
       s_avg_qualified_base = sql_avg (map (cell_num \<circ> row_qualified_base) rows),
       s_latest_date = sql_max (map row_load_date rows),
       s_telco = snd k \<rparr>"

text \<open>\<open>ORDER BY loan_type, telco\<close> on the group keys.\<close>

definition group_later :: "string option \<times> string option \<Rightarrow> string option \<times> string option \<Rightarrow> bool" where
  "group_later a b =
     (null_less str_less (fst b) (fst a)
      \<or> (fst a = fst b \<and> null_less str_less (snd b) (snd a)))"

definition summary_select :: "db \<Rightarrow> table_name \<Rightarrow> jsval list \<Rightarrow> db_error + summary_row list" where
  "summary_select d t params =
     (case params of
        [JNum (Fin n)] \<Rightarrow>
          (let rows = filter (\<lambda>r. eval_cond d r (DateSince, [JNum (Fin n)])) (loan_table d t);
               keys = stable_sort group_later (remdups (map (\<lambda>r. (row_loan_type r, row_telco r)) rows))
           in Inr (map (\<lambda>k. group_row k (filter (\<lambda>r. (row_loan_type r, row_telco r) = k) rows)) keys))
      | _ \<Rightarrow> Inl SqlError)"

subsection \<open>The NPL statement\<close>

text \<open>The CASE expression of the ORDER BY; a NULL loan type takes the ELSE branch.\<close>

definition npl_rank :: "string option \<Rightarrow> nat" where
  "npl_rank lt =
     (if lt = Some ''7 Days Loan'' then 1
      else if lt = Some ''14 Days Loan'' then 2
      else if lt = Some ''21 Days Loan'' then 3
      else if lt = Some ''30 Days Loan'' then 4
      else if lt = Some ''Grand Total'' then 5
      else 6)"

definition npl_select :: "db \<Rightarrow> npl_row list" where
  "npl_select d =
     stable_sort (\<lambda>a b. npl_rank (npl_loan_type b) < npl_rank (npl_loan_type a)) (npl_joined d)"

section \<open>The request handlers\<close>

text \<open>
  \<open>req.query\<close>: each parameter is absent or a string. Repeated and nested parameters,
  which arrive as arrays and objects, are outside the model.
\<close>

record query_params =
  q_loan_type :: "string option"
  q_telco :: "string option"
  q_days :: "string option"
  q_start_date :: "string option"
  q_end_date :: "string option"
  q_limit :: "string option"

text \<open>A destructuring default, and the truthiness of a parameter.\<close>

definition default_to :: "string \<Rightarrow> string option \<Rightarrow> string" where
  "default_to dflt v = (case v of None \<Rightarrow> dflt | Some s \<Rightarrow> s)"

definition truthy_str :: "string option \<Rightarrow> bool" where
  "truthy_str v = (case v of None \<Rightarrow> False | Some s \<Rightarrow> s \<noteq> [])"

text \<open>
  What a lookup in the object literal \<open>loanTypeMap\<close> finds: one of its four strings, or a
  member inherited from \<open>Object.prototype\<close>, kept as the text it has inside a template
  string.
\<close>

datatype lookup = StrVal string | ObjVal string

fun lookup_text :: "lookup \<Rightarrow> string" where
  "lookup_text (StrVal s) = s"
| "lookup_text (ObjVal s) = s"

definition loanTypeMap :: "string \<Rightarrow> lookup option" where
  "loanTypeMap k =
     (if k = ''7'' then Some (StrVal ''Nano 7D'')
      else if k = ''14'' then Some (StrVal ''Nano 14D'')
      else if k = ''21'' then Some (StrVal ''Nano 21D'')
      else if k = ''30'' then Some (StrVal ''Nano 30D'')
      else if k = ''__proto__'' then Some (ObjVal ''[object Object]'')
      else if k = ''constructor'' then Some (ObjVal ''function Object() { [native code] }'')
      else if k \<in> set [''__defineGetter__'', ''__defineSetter__'', ''hasOwnProperty'',
                ''__lookupGetter__'', ''__lookupSetter__'', ''isPrototypeOf'',
                ''propertyIsEnumerable'', ''toString'', ''valueOf'', ''toLocaleString'']
        then Some (ObjVal (''function '' @ k @ ''() { [native code] }''))
      else None)"

record filters =
  f_loan_type :: "lookup option"
  f_telco :: string
  f_days :: jsnum
  f_start_date :: "string option"
  f_end_date :: "string option"

record summary_record =
  summary_loan_type :: "string option"
  record_count :: nat
  total_gross_lent :: jsnum
  total_principal_recovered :: jsnum
  total_service_fee_recovered :: jsnum
  total_late_fees_recovered :: jsnum
  total_lending_transactions :: "rat option"
  total_recovery_transactions :: "rat option"
  avg_qualified_base :: jsnum
  latest_date :: "int option"
  summary_telco :: "string option"

record npl_record =
  out_loan_type :: "string option"
  out_total_balance :: jsnum
  out_within_tenure :: jsnum
  out_arrears_30_days :: jsnum
  out_arrears_31_60_days :: jsnum
  out_arrears_61_90_days :: jsnum
  out_arrears_91_120_days :: jsnum
  out_arrears_121_150_days :: jsnum
  out_arrears_151_180_days :: jsnum
  out_arrears_181_plus_days :: jsnum
  out_arrears_percentage :: jsnum
  out_report_date :: "int option"
  out_net_recovered_value :: jsnum
  out_unrecovered_percentage_net :: jsnum

text \<open>
  The JSON bodies: an error with the driver's error when there is one; the loan data
  with the \<open>loan_type\<close> member of the per-type endpoint, \<open>count\<close> and \<open>filters\<close>; the
  summary with its two filters; the NPL data (its \<open>timestamp\<close> is left out).
\<close>

datatype body =
    ErrorBody string "db_error option"
  | LoanBody "loan_record list" "lookup option" nat filters
  | SummaryBody "summary_record list" string jsnum
  | NplBody "npl_record list"

record response =
  status :: nat
  body :: body

subsection \<open>Pieces shared by the loan handlers\<close>

text \<open>The table selection of \<open>/api/loan-data\<close> and \<open>/api/loan-data/:loanType\<close>.\<close>

definition select_tables :: "string \<Rightarrow> table_name list" where
  "select_tables t =
     (if toLowerCase t = ''airtel'' then [Airtel_loan_data]
      else if toLowerCase t = ''mtn'' then [MTN_loan_data]
      else if toLowerCase t = ''both'' then [Airtel_loan_data, MTN_loan_data]
      else [])"

text \<open>\<open>parseInt(days) || 7\<close>.\<close>

definition days_int :: "string \<Rightarrow> jsnum" where
  "days_int days = js_or (parseInt_str days) (Fin 7)"

text \<open>The date filter: the condition pushed and the parameters pushed with it.\<close>

definition date_conds :: "query_params \<Rightarrow> string \<Rightarrow> cond list \<times> jsval list" where
  "date_conds q days =
     (if truthy_str (q_start_date q) \<and> truthy_str (q_end_date q)
      then ([DateBetween], [JStr (or_empty (q_start_date q)), JStr (or_empty (q_end_date q))])
      else ([DateSince], [JNum (days_int days)]))"

text \<open>The additional telco condition.\<close>

definition telco_conds :: "string \<Rightarrow> cond list" where
  "telco_conds t =
     (if toLowerCase t = ''airtel'' then [TelcoAirtel]
      else if toLowerCase t = ''mtn'' then [TelcoMTN]
      else [])"

text \<open>
  The loop \<open>for (const table of tables)\<close>: one statement per table, each result converted
  and appended to \<open>allResults\<close>; a failing statement throws and ends the loop. The
  statements sent are recorded in order.
\<close>

fun loan_queries :: "db \<Rightarrow> cond list \<Rightarrow> bool \<Rightarrow> jsval list \<Rightarrow> table_name list
    \<Rightarrow> loan_record list \<Rightarrow> sql_call list \<Rightarrow> (db_error + loan_record list) \<times> sql_call list" where
  "loan_queries d conds with_type params [] allResults sent = (Inr allResults, sent)"
| "loan_queries d conds with_type params (t # ts) allResults sent =
     (case loan_select d t conds with_type params of
        Inl e \<Rightarrow> (Inl e, sent @ [(LoanSelect t conds with_type, params)])
      | Inr rows \<Rightarrow>
          loan_queries d conds with_type params ts
            (allResults @ convertToDashboardFormat rows)
            (sent @ [(LoanSelect t conds with_type, params)]))"

text \<open>
  \<open>allResults.sort((a, b) => new Date(b.date) - new Date(a.date))\<close>: the difference of
  the two dates in milliseconds, \<open>NaN\<close> when one of them is \<open>Invalid date\<close>; an element
  moves behind another when the comparator is positive.
\<close>

definition date_diff :: "loan_record \<Rightarrow> loan_record \<Rightarrow> jsnum" where
  "date_diff a b =
     (case (date b, date a) of
        (Some y, Some x) \<Rightarrow> Fin (of_int ((y - x) * 86400000))
      | _ \<Rightarrow> NaN)"

fun positive :: "jsnum \<Rightarrow> bool" where
  "positive (Fin x) = (0 < x)"
| "positive PosInf = True"
| "positive NegInf = False"
| "positive NaN = False"

definition sort_by_date :: "loan_record list \<Rightarrow> loan_record list" where
  "sort_by_date xs = stable_sort (\<lambda>a b. positive (date_diff a b)) xs"

subsection \<open>GET /api/loan-data\<close>

text \<open>The block that builds \<open>whereConditions\<close> and \<open>params\<close>.\<close>

definition loan_where :: "query_params \<Rightarrow> string \<Rightarrow> string \<Rightarrow> cond list \<times> jsval list" where
  "loan_where q tel days =
     (let dc = date_conds q days;
          lc = (if truthy_str (q_loan_type q)
                then ([LoanTypeLike], [JStr (''%'' @ or_empty (q_loan_type q) @ ''%'')])
                else ([], []))
      in (fst dc @ fst lc @ telco_conds tel, snd dc @ snd lc))"

definition loan_data :: "db \<Rightarrow> query_params \<Rightarrow> response \<times> sql_call list" where
  "loan_data d q =
     (let telco = default_to ''both'' (q_telco q);
          days = default_to ''7'' (q_days q);
          limit = default_to ''1000'' (q_limit q);
          tables = select_tables telco
      in if tables = []
         then (\<lparr>status = 400, body = ErrorBody ''Invalid telco parameter'' None\<rparr>, [])
         else
           (let w = loan_where q telco days
            in case loan_queries d (fst w) True (snd w @ [JNum (parseInt_str limit)]) tables [] [] of
                 (Inl e, sent) \<Rightarrow>
                   (\<lparr>status = 500, body = ErrorBody ''Database query failed'' (Some e)\<rparr>, sent)
               | (Inr allResults, sent) \<Rightarrow>
                   (\<lparr>status = 200,
                     body = LoanBody (sort_by_date allResults) None (length allResults)
                              \<lparr>f_loan_type = map_option StrVal (q_loan_type q),
                               f_telco = telco,
                               f_days = parseInt_str days,
                               f_start_date = q_start_date q,
                               f_end_date = q_end_date q\<rparr>\<rparr>, sent)))"

subsection \<open>GET /api/loan-data/:loanType\<close>

definition by_type_where :: "query_params \<Rightarrow> lookup \<Rightarrow> string \<Rightarrow> string \<Rightarrow> cond list \<times> jsval list" where
  "by_type_where q dbLoanType tel days =
     (let dc = date_conds q days
      in ([LoanTypeLike] @ fst dc @ telco_conds tel,
          [JStr (''%'' @ lookup_text dbLoanType @ ''%'')] @ snd dc))"

definition loan_data_by_type :: "db \<Rightarrow> string \<Rightarrow> query_params \<Rightarrow> response \<times> sql_call list" where
  "loan_data_by_type d loanType q =
     (let telco = default_to ''both'' (q_telco q);
          days = default_to ''7'' (q_days q);
          limit = default_to ''500'' (q_limit q)
      in case loanTypeMap loanType of
           None \<Rightarrow> (\<lparr>status = 400, body = ErrorBody ''Invalid loan type'' None\<rparr>, [])
         | Some dbLoanType \<Rightarrow>
             (let tables = select_tables telco;
                  w = by_type_where q dbLoanType telco days
              in case loan_queries d (fst w) False (snd w @ [JNum (parseInt_str limit)]) tables [] [] of
                   (Inl e, sent) \<Rightarrow>
                     (\<lparr>status = 500, body = ErrorBody ''Database query failed'' (Some e)\<rparr>, sent)
                 | (Inr allResults, sent) \<Rightarrow>
                     (\<lparr>status = 200,
                       body = LoanBody (sort_by_date allResults) (Some dbLoanType) (length allResults)
                                \<lparr>f_loan_type = Some dbLoanType,
                                 f_telco = telco,
                                 f_days = parseInt_str days,
                                 f_start_date = q_start_date q,
                                 f_end_date = q_end_date q\<rparr>\<rparr>, sent)))"

subsection \<open>GET /api/loan-data/summary\<close>

text \<open>\<open>parseFloat(v) || 0\<close> on an aggregate, which arrives as \<open>null\<close> or as its number.\<close>

definition aggregate_or_0 :: "rat option \<Rightarrow> jsnum" where
  "aggregate_or_0 v = js_or (case v of None \<Rightarrow> parseFloat JNull | Some x \<Rightarrow> Fin x) (Fin 0)"

definition format_summary :: "summary_row \<Rightarrow> summary_record" where
  "format_summary row =
     \<lparr> summary_loan_type = s_loan_type row,
       record_count = s_record_count row,
       total_gross_lent = aggregate_or_0 (s_total_gross_lent row),
       total_principal_recovered = aggregate_or_0 (s_total_principal_recovered row),
       total_service_fee_recovered = aggregate_or_0 (s_total_service_fee_recovered row),
       total_late_fees_recovered = aggregate_or_0 (s_total_late_fees_recovered row),
       total_lending_transactions = s_total_lending_transactions row,
       total_recovery_transactions = s_total_recovery_transactions row,
       avg_qualified_base = aggregate_or_0 (s_avg_qualified_base row),
       latest_date = s_latest_date row,
       summary_telco = s_telco row \<rparr>"

fun summary_queries :: "db \<Rightarrow> jsval list \<Rightarrow> table_name list
    \<Rightarrow> summary_record list \<Rightarrow> sql_call list \<Rightarrow> (db_error + summary_record list) \<times> sql_call list" where
  "summary_queries d params [] allSummaries sent = (Inr allSummaries, sent)"
| "summary_queries d params (t # ts) allSummaries sent =
     (case summary_select d t params of
        Inl e \<Rightarrow> (Inl e, sent @ [(SummarySelect t, params)])
      | Inr rows \<Rightarrow>
          summary_queries d params ts (allSummaries @ map format_summary rows)
            (sent @ [(SummarySelect t, params)]))"

definition loan_data_summary :: "db \<Rightarrow> query_params \<Rightarrow> response \<times> sql_call list" where
  "loan_data_summary d q =
     (let telco = default_to ''both'' (q_telco q);
          days = default_to ''30'' (q_days q);
          tables =
            (if toLowerCase telco = ''airtel'' \<or> toLowerCase telco = ''both''
             then [Airtel_loan_data] else [])
            @ (if toLowerCase telco = ''mtn'' \<or> toLowerCase telco = ''both''
               then [MTN_loan_data] else [])
      in case summary_queries d [JNum (parseInt_str days)] tables [] [] of
           (Inl e, sent) \<Rightarrow>
             (\<lparr>status = 500, body = ErrorBody ''Summary query failed'' (Some e)\<rparr>, sent)
         | (Inr allSummaries, sent) \<Rightarrow>
             (\<lparr>status = 200, body = SummaryBody allSummaries telco (parseInt_str days)\<rparr>, sent))"

subsection \<open>GET /api/npl-data\<close>

definition format_npl :: "npl_row \<Rightarrow> npl_record" where
  "format_npl row =
     \<lparr> out_loan_type = npl_loan_type row,
       out_total_balance = float_or_0 (npl_total_balance row),
       out_within_tenure = float_or_0 (npl_within_tenure row),
       out_arrears_30_days = float_or_0 (npl_arrears_30_days row),
       out_arrears_31_60_days = float_or_0 (npl_arrears_31_60_days row),
       out_arrears_61_90_days = float_or_0 (npl_arrears_61_90_days row),
       out_arrears_91_120_days = float_or_0 (npl_arrears_91_120_days row),
       out_arrears_121_150_days = float_or_0 (npl_arrears_121_150_days row),
       out_arrears_151_180_days = float_or_0 (npl_arrears_151_180_days row),
       out_arrears_181_plus_days = float_or_0 (npl_arrears_181_plus_days row),
       out_arrears_percentage = float_or_0 (npl_arrears_percentage row),
       out_report_date = npl_report_date row,
       out_net_recovered_value = float_or_0 (npl_net_recovered_value row),
       out_unrecovered_percentage_net = float_or_0 (npl_unrecovered_percentage_net row) \<rparr>"

definition npl_data :: "db \<Rightarrow> response \<times> sql_call list" where
  "npl_data d =
     (\<lparr>status = 200, body = NplBody (map format_npl (npl_select d))\<rparr>, [(NplSelect, [])])"

section \<open>Routing\<close>

text \<open>
  Express tries the routes in the order of the \<open>app.get\<close> calls and runs the handler of
  the first one whose path matches; no handler of server.js passes the request on. A
  path is its list of segments. A literal segment matches without regard to case, a
  named segment \<open>:name\<close> matches any one segment and binds it.
\<close>

datatype seg = Lit string | Param string

datatype handler =
    Health | LoanData | LoanDataByType | LoanDataSummary | NplData | Status
  | TestTableStructure | TestSimpleQuery | TestNplTables | TestApiOutput

definition routes :: "(seg list \<times> handler) list" where
  "routes =
     [([Lit ''api'', Lit ''health''], Health),
      ([Lit ''api'', Lit ''loan-data''], LoanData),
      ([Lit ''api'', Lit ''loan-data'', Param ''loanType''], LoanDataByType),
      ([Lit ''api'', Lit ''loan-data'', Lit ''summary''], LoanDataSummary),
      ([Lit ''api'', Lit ''npl-data''], NplData),
      ([Lit ''api'', Lit ''status''], Status),
      ([Lit ''api'', Lit ''test-table-structure''], TestTableStructure),
      ([Lit ''api'', Lit ''test-simple-query''], TestSimpleQuery),
      ([Lit ''api'', Lit ''test-npl-tables''], TestNplTables),
      ([Lit ''api'', Lit ''test-api-output''], TestApiOutput)]"

fun match_path :: "seg list \<Rightarrow> string list \<Rightarrow> (string \<times> string) list option" where
  "match_path [] [] = Some []"
| "match_path (Lit l # ps) (s # ss) =
     (if toLowerCase l = toLowerCase s then match_path ps ss else None)"
| "match_path (Param n # ps) (s # ss) =
     (if s = [] then None else map_option ((#) (n, s)) (match_path ps ss))"
| "match_path ps ss = None"

fun find_route :: "(seg list \<times> handler) list \<Rightarrow> string list \<Rightarrow> (handler \<times> (string \<times> string) list) option" where
  "find_route [] path = None"
| "find_route ((pat, h) # rs) path =
     (case match_path pat path of
        Some binds \<Rightarrow> Some (h, binds)
      | None \<Rightarrow> find_route rs path)"

text \<open>
  The answer to a GET request, for the four handlers modelled here; \<open>None\<close> for the
  other routes and for a path that no route matches.
\<close>

definition serve :: "db \<Rightarrow> string list \<Rightarrow> query_params \<Rightarrow> (response \<times> sql_call list) option" where
  "serve d path q =
     (case find_route routes path of
        Some (LoanData, binds) \<Rightarrow> Some (loan_data d q)
      | Some (LoanDataByType, binds) \<Rightarrow>
          (case map_of binds ''loanType'' of
             Some loanType \<Rightarrow> Some (loan_data_by_type d loanType q)
           | None \<Rightarrow> None)
      | Some (LoanDataSummary, binds) \<Rightarrow> Some (loan_data_summary d q)
      | Some (NplData, binds) \<Rightarrow> Some (npl_data d)
      | _ \<Rightarrow> None)"

section \<open>Sample data\<close>

text \<open>A row with every column NULL, and the rows and requests used as examples below.\<close>

definition blank_row :: raw_row where
  "blank_row =
     \<lparr> row_load_date = None, row_loan_type = None, row_denom = JNull,
       row_gross_lent = JNull, row_sfee_lent = JNull, row_lending_txns = JNull,
       row_late_fees_charged = JNull, row_principal_recovered = JNull,
       row_sfee_recovered = JNull, row_late_fees_recovered = JNull,
       row_recovery_txns = JNull, row_interest_fees_charged = JNull,
       row_interest_fees_recovered = JNull, row_setup_fees_charged = JNull,
       row_setup_fees_recovered = JNull, row_daily_fees_charged = JNull,
       row_daily_fees_recovered = JNull, row_country = None, row_telco = None,
       row_qualified_base = JNull, row_overall_actives_daily = JNull,
       row_overall_actives_wtd = JNull, row_overall_actives_mtd = JNull,
       row_overall_actives_ytd = JNull, row_processed_at = None, row_file_source = None \<rparr>"



text \<open>
  Three snapshots of one key \<open>(load_date, loan_type, denom)\<close>: two in the Airtel table,
  processed at 10 and at 20, and one in the MTN table, processed at 30.
\<close>

definition snapshot :: "string \<Rightarrow> int \<Rightarrow> raw_row" where
  "snapshot tel ts =
     blank_row \<lparr> row_load_date := Some 99, row_loan_type := Some ''Nano 7D'',
                 row_denom := JNum (Fin 5), row_telco := Some tel,
                 row_processed_at := Some ts \<rparr>"

definition sample_db :: db where
  "sample_db =
     \<lparr> loan_table = (\<lambda>t. case t of
          Airtel_loan_data \<Rightarrow> [snapshot ''Airtel'' 10, snapshot ''Airtel'' 20]
        | MTN_loan_data \<Rightarrow> [snapshot ''MTN'' 30]),
       curdate = 100,
       sql_date = (\<lambda>s. None),
       npl_joined = [] \<rparr>"

text \<open>The NPL categories in an arbitrary order, one of them not a named one.\<close>

definition category_row :: "string option \<Rightarrow> npl_row" where
  "category_row lt =
     \<lparr> npl_loan_type = lt, npl_total_balance = JNull, npl_within_tenure = JNull,
       npl_arrears_30_days = JNull, npl_arrears_31_60_days = JNull,
       npl_arrears_61_90_days = JNull, npl_arrears_91_120_days = JNull,
       npl_arrears_121_150_days = JNull, npl_arrears_151_180_days = JNull,
       npl_arrears_181_plus_days = JNull, npl_arrears_percentage = JNull,
       npl_report_date = None, npl_net_recovered_value = JNull,
       npl_unrecovered_percentage_net = JNull \<rparr>"

definition npl_db :: db where
  "npl_db =
     \<lparr> loan_table = (\<lambda>t. []),
       curdate = 100,
       sql_date = (\<lambda>s. None),
       npl_joined = map category_row
         [Some ''Grand Total'', Some ''60 Days Loan'', Some ''30 Days Loan'',
          Some ''7 Days Loan'', Some ''21 Days Loan'', Some ''14 Days Loan''] \<rparr>"

definition no_params :: query_params where
  "no_params = \<lparr> q_loan_type = None, q_telco = None, q_days = None,
                  q_start_date = None, q_end_date = None, q_limit = None \<rparr>"

section \<open>Notions used in the statements\<close>








text \<open>
  A body with other values in the \<open>start_date\<close> and \<open>end_date\<close> members of its
  \<open>filters\<close>, which only repeat the request.
\<close>

fun echo_dates :: "string option \<Rightarrow> string option \<Rightarrow> body \<Rightarrow> body" where
  "echo_dates s e (LoanBody data lt n f) = LoanBody data lt n (f\<lparr>f_start_date := s, f_end_date := e\<rparr>)"
| "echo_dates s e b = b"

section \<open>Evaluation and basic facts\<close>

lemmas parse_eval =
  parseFloat_str_def parseInt_str_def is_space_def is_digit_def is_hex_def
  digits_val_def digit_val_def hex_val_def

lemmas lower_eval = toLowerCase_def lower_char_def

lemma convert_row_fields:
  "date (convert_row row) = row_load_date row"
  "telco (convert_row row) = or_empty (row_telco row)"
  "country (convert_row row) = or_empty (row_country row)"
  "loan_type (convert_row row) = or_empty (row_loan_type row)"
  "file_source (convert_row row) = or_empty (row_file_source row)"
  "denom (convert_row row) = int_or_0 (row_denom row)"
  "qualified_base (convert_row row) = int_or_0 (row_qualified_base row)"
  "overall_actives_daily (convert_row row) = int_or_0 (row_overall_actives_daily row)"
  "overall_actives_mtd (convert_row row) = int_or_0 (row_overall_actives_mtd row)"
  "overall_actives_ytd (convert_row row) = int_or_0 (row_overall_actives_ytd row)"
  "unique_users (convert_row row) = int_or_0 (row_overall_actives_daily row)"
  "overall_unique_users (convert_row row) = int_or_0 (row_overall_actives_ytd row)"
  "overall_actives_wtd (convert_row row) = float_or_0 (row_overall_actives_wtd row)"
  "lending_transactions (convert_row row) = float_or_0 (row_lending_txns row)"
  "lending_txns (convert_row row) = float_or_0 (row_lending_txns row)"
  "gross_lent (convert_row row) = float_or_0 (row_gross_lent row)"
  "service_fee_lent (convert_row row) = float_or_0 (row_sfee_lent row)"
  "sfee_lent (convert_row row) = float_or_0 (row_sfee_lent row)"
  "late_fees_charged (convert_row row) = float_or_0 (row_late_fees_charged row)"
  "setup_fees_charged (convert_row row) = float_or_0 (row_setup_fees_charged row)"
  "interest_fees_charged (convert_row row) = float_or_0 (row_interest_fees_charged row)"
  "daily_fees_charged (convert_row row) = float_or_0 (row_daily_fees_charged row)"
  "recovery_transactions (convert_row row) = float_or_0 (row_recovery_txns row)"
  "recovery_txns (convert_row row) = float_or_0 (row_recovery_txns row)"
  "principal_recovered (convert_row row) = float_or_0 (row_principal_recovered row)"
  "service_fee_recovered (convert_row row) = float_or_0 (row_sfee_recovered row)"
  "sfee_recovered (convert_row row) = float_or_0 (row_sfee_recovered row)"
  "late_fees_recovered (convert_row row) = float_or_0 (row_late_fees_recovered row)"
  "setup_fees_recovered (convert_row row) = float_or_0 (row_setup_fees_recovered row)"
  "interest_fees_recovered (convert_row row) = float_or_0 (row_interest_fees_recovered row)"
  "daily_fees_recovered (convert_row row) = float_or_0 (row_daily_fees_recovered row)"
  "principal_lent (convert_row row) = sub_num (float_or_0 (row_gross_lent row)) (float_or_0 (row_sfee_lent row))"
  "gross_recovered (convert_row row) =
     add_num (add_num (add_num (add_num (add_num
       (float_or_0 (row_principal_recovered row))
       (float_or_0 (row_sfee_recovered row)))
       (float_or_0 (row_late_fees_recovered row)))
       (float_or_0 (row_setup_fees_recovered row)))
       (float_or_0 (row_interest_fees_recovered row)))
       (float_or_0 (row_daily_fees_recovered row))"
  "fx_rate (convert_row row) = Fin 1"
  "processed_at (convert_row row) = row_processed_at row"
  by (simp_all add: convert_row_def)











section \<open>The normalised record\<close>












section \<open>The handlers\<close>

lemma select_tables_empty:
  "select_tables t = [] \<longleftrightarrow> toLowerCase t \<notin> {''airtel'', ''mtn'', ''both''}"
  by (simp add: select_tables_def)

lemma sort_by_date_Nil: "sort_by_date [] = []"
  by (simp add: sort_by_date_def stable_sort_def)



lemma parseInt_str_cases: "parseInt_str s = NaN \<or> (\<exists>n. parseInt_str s = Fin (of_int n))"
  by (simp add: parseInt_str_def Let_def)

lemma days_int_cases:
  "days_int s = (if parseInt_str s = NaN \<or> parseInt_str s = Fin 0 then Fin 7 else parseInt_str s)"
  using parseInt_str_cases [of s] by (auto simp: days_int_def js_or_def)

lemma days_int_integer: "\<exists>n. days_int s = Fin (of_int n) \<and> n \<noteq> 0"
proof (cases "parseInt_str s = NaN \<or> parseInt_str s = Fin 0")
  case True
  then have "days_int s = Fin (of_int 7)" by (simp add: days_int_cases)
  then show ?thesis by (intro exI [of _ 7]) simp
next
  case False
  with parseInt_str_cases [of s] obtain n where n: "parseInt_str s = Fin (of_int n)" by auto
  with False have "n \<noteq> 0" by auto
  with n False show ?thesis by (auto simp: days_int_cases)
qed










lemma loan_data_unknown_telco:
  assumes "toLowerCase (default_to ''both'' (q_telco q)) \<notin> {''airtel'', ''mtn'', ''both''}"
  shows "loan_data d q = (\<lparr>status = 400, body = ErrorBody ''Invalid telco parameter'' None\<rparr>, [])"
  using assms by (simp add: loan_data_def select_tables_def)

lemma loan_data_by_type_unknown_telco:
  assumes "toLowerCase (default_to ''both'' (q_telco q)) \<notin> {''airtel'', ''mtn'', ''both''}"
    and "loanTypeMap loanType = Some v"
  shows "loan_data_by_type d loanType q =
          (\<lparr>status = 200,
            body = LoanBody [] (Some v) 0
                     \<lparr>f_loan_type = Some v, f_telco = default_to ''both'' (q_telco q),
                      f_days = parseInt_str (default_to ''7'' (q_days q)),
                      f_start_date = q_start_date q, f_end_date = q_end_date q\<rparr>\<rparr>, [])"
  using assms by (simp add: loan_data_by_type_def select_tables_def sort_by_date_Nil)

lemma route_summary:
  "find_route routes [''api'', ''loan-data'', ''summary''] = Some (LoanDataByType, [(''loanType'', ''summary'')])"
  by (simp add: routes_def lower_eval)

lemma route_seven:
  "find_route routes [''api'', ''loan-data'', ''7''] = Some (LoanDataByType, [(''loanType'', ''7'')])"
  by (simp add: routes_def lower_eval)

lemma no_params_fields:
  "q_loan_type no_params = None" "q_telco no_params = None" "q_days no_params = None"
  "q_start_date no_params = None" "q_end_date no_params = None" "q_limit no_params = None"
  by (simp_all add: no_params_def)

text \<open>
  Claim C2. The claim asks that a GET of \<open>/api/loan-data/summary\<close> be answered by the
  summary handler. The route \<open>/api/loan-data/:loanType\<close> is registered first and matches
  the path with \<open>loanType = summary\<close>, which is no key of \<open>loanTypeMap\<close>: whatever the
  store holds and whatever the query string says, the answer is status 400 with the
  error \<open>Invalid loan type\<close>, and no statement is sent.
\<close>

theorem summary_path_answered_by_type_handler:
  "serve d [''api'', ''loan-data'', ''summary''] q
     = Some (\<lparr>status = 400, body = ErrorBody ''Invalid loan type'' None\<rparr>, [])"
  by (simp add: serve_def route_summary loan_data_by_type_def loanTypeMap_def)

text \<open>
  Claim C7. \<open>GET /api/loan-data\<close> answers an unknown \<open>telco\<close> with status 400 and sends
  no statement (\<open>loan_data_unknown_telco\<close> above). \<open>GET /api/loan-data/:loanType\<close> has the
  same table selection but not the check that follows it: for \<open>/api/loan-data/7\<close> with
  \<open>telco=vodafone\<close> it sends no statement either, and answers with status 200 and an
  empty \<open>data\<close> array.
\<close>

theorem by_type_unknown_telco_answer:
  "serve d [''api'', ''loan-data'', ''7''] (no_params\<lparr>q_telco := Some ''vodafone''\<rparr>)
     = Some (\<lparr>status = 200,
              body = LoanBody [] (Some (StrVal ''Nano 7D'')) 0
                       \<lparr>f_loan_type = Some (StrVal ''Nano 7D''), f_telco = ''vodafone'',
                        f_days = Fin 7, f_start_date = None, f_end_date = None\<rparr>\<rparr>, [])"
proof -
  have t: "toLowerCase (default_to ''both'' (q_telco (no_params\<lparr>q_telco := Some ''vodafone''\<rparr>)))
             \<notin> {''airtel'', ''mtn'', ''both''}"
    by (simp add: default_to_def lower_eval)
  have m: "loanTypeMap ''7'' = Some (StrVal ''Nano 7D'')"
    by (simp add: loanTypeMap_def)
  show ?thesis
    by (simp add: serve_def route_seven loan_data_by_type_unknown_telco [OF t m])
       (simp add: no_params_fields default_to_def parse_eval)
qed




text \<open>
  The summary handler has no fallback of this kind: it binds \<open>parseInt(days)\<close> as it is
  read, so a \<open>days\<close> without a number reaches the statement as \<open>NaN\<close> and the request fails.
\<close>

lemma summary_days_without_number:
  "loan_data_summary sample_db (no_params\<lparr>q_days := Some ''abc''\<rparr>)
     = (\<lparr>status = 500, body = ErrorBody ''Summary query failed'' (Some SqlError)\<rparr>,
        [(SummarySelect Airtel_loan_data, [JNum NaN])])"
  by (simp add: loan_data_summary_def no_params_fields default_to_def lower_eval parse_eval
        summary_select_def)

text \<open>
  Claim C10. When exactly one of \<open>start_date\<close> and \<open>end_date\<close> is supplied, the other
  being absent or empty, the date filter is the trailing window, the same as for the
  request without both; the two loan handlers send the same statements and give the same
  answer as for that request, apart from the \<open>start_date\<close> and \<open>end_date\<close> members of
  \<open>filters\<close>, which repeat the request.
\<close>

theorem single_date_ignored:
  assumes "truthy_str (q_start_date q) \<noteq> truthy_str (q_end_date q)"
  shows "date_conds q days = ([DateSince], [JNum (days_int days)])
       \<and> date_conds q days = date_conds (q\<lparr>q_start_date := None, q_end_date := None\<rparr>) days
       \<and> loan_data d q =
           (fst (loan_data d (q\<lparr>q_start_date := None, q_end_date := None\<rparr>))
              \<lparr>body := echo_dates (q_start_date q) (q_end_date q)
                        (body (fst (loan_data d (q\<lparr>q_start_date := None, q_end_date := None\<rparr>))))\<rparr>,
            snd (loan_data d (q\<lparr>q_start_date := None, q_end_date := None\<rparr>)))
       \<and> loan_data_by_type d loanType q =
           (fst (loan_data_by_type d loanType (q\<lparr>q_start_date := None, q_end_date := None\<rparr>))
              \<lparr>body := echo_dates (q_start_date q) (q_end_date q)
                        (body (fst (loan_data_by_type d loanType (q\<lparr>q_start_date := None, q_end_date := None\<rparr>))))\<rparr>,
            snd (loan_data_by_type d loanType (q\<lparr>q_start_date := None, q_end_date := None\<rparr>)))"
proof -
  have a: "\<And>days. date_conds q days = ([DateSince], [JNum (days_int days)])"
    using assms by (auto simp: date_conds_def)
  have b: "\<And>days. date_conds (q\<lparr>q_start_date := None, q_end_date := None\<rparr>) days
             = ([DateSince], [JNum (days_int days)])"
    by (simp add: date_conds_def truthy_str_def)
  have c: "\<And>tel days. loan_where (q\<lparr>q_start_date := None, q_end_date := None\<rparr>) tel days
             = loan_where q tel days"
    by (simp add: loan_where_def a b)
  have e: "\<And>v tel days. by_type_where (q\<lparr>q_start_date := None, q_end_date := None\<rparr>) v tel days
             = by_type_where q v tel days"
    by (simp add: by_type_where_def a b)
  have f: "loan_data d q =
           (fst (loan_data d (q\<lparr>q_start_date := None, q_end_date := None\<rparr>))
              \<lparr>body := echo_dates (q_start_date q) (q_end_date q)
                        (body (fst (loan_data d (q\<lparr>q_start_date := None, q_end_date := None\<rparr>))))\<rparr>,
            snd (loan_data d (q\<lparr>q_start_date := None, q_end_date := None\<rparr>)))"
    by (simp add: loan_data_def c Let_def split: prod.splits sum.splits)
  have g: "loan_data_by_type d loanType q =
           (fst (loan_data_by_type d loanType (q\<lparr>q_start_date := None, q_end_date := None\<rparr>))
              \<lparr>body := echo_dates (q_start_date q) (q_end_date q)
                        (body (fst (loan_data_by_type d loanType (q\<lparr>q_start_date := None, q_end_date := None\<rparr>))))\<rparr>,
            snd (loan_data_by_type d loanType (q\<lparr>q_start_date := None, q_end_date := None\<rparr>)))"
    by (simp add: loan_data_by_type_def e Let_def split: prod.splits sum.splits option.splits)
  from a b f g show ?thesis by simp
qed

theorem single_date_ignored_witness:
  "truthy_str (q_start_date (no_params\<lparr>q_start_date := Some ''2025-08-06''\<rparr>))
     \<noteq> truthy_str (q_end_date (no_params\<lparr>q_start_date := Some ''2025-08-06''\<rparr>))
   \<and> date_conds (no_params\<lparr>q_start_date := Some ''2025-08-06''\<rparr>) ''7''
       = ([DateSince], [JNum (Fin 7)])"
proof -
  have h: "truthy_str (q_start_date (no_params\<lparr>q_start_date := Some ''2025-08-06''\<rparr>))
     \<noteq> truthy_str (q_end_date (no_params\<lparr>q_start_date := Some ''2025-08-06''\<rparr>))"
    by (simp add: no_params_fields truthy_str_def)
  have w: "days_int ''7'' = Fin 7"
    by (simp add: days_int_def js_or_def parse_eval)
  from single_date_ignored [OF h, of "''7''" sample_db "''7''"]
  have "date_conds (no_params\<lparr>q_start_date := Some ''2025-08-06''\<rparr>) ''7''
          = ([DateSince], [JNum (days_int ''7'')])"
    by (rule conjunct1)
  with w have "date_conds (no_params\<lparr>q_start_date := Some ''2025-08-06''\<rparr>) ''7''
          = ([DateSince], [JNum (Fin 7)])"
    by (simp only:)
  with h show ?thesis by (rule conjI)
qed

section \<open>Ordering and the loan statement\<close>

lemma set_insert_before: "set (insert_before later x ys) = insert x (set ys)"
  by (induction ys) auto

lemma set_stable_sort: "set (stable_sort later xs) = set xs"
  by (induction xs) (simp_all add: stable_sort_def set_insert_before)

lemma mset_insert_before: "mset (insert_before later x ys) = add_mset x (mset ys)"
  by (induction ys) auto

lemma mset_stable_sort: "mset (stable_sort later xs) = mset xs"
  by (induction xs) (simp_all add: stable_sort_def mset_insert_before)

lemma sorted_insert_before:
  fixes k :: "'a \<Rightarrow> 'b::linorder"
  assumes "sorted (map k ys)" and "\<forall>y \<in> set ys. later x y \<longleftrightarrow> k y < k x"
  shows "sorted (map k (insert_before later x ys))"
  using assms
proof (induction ys)
  case Nil
  show ?case by simp
next
  case (Cons y ys)
  show ?case
  proof (cases "later x y")
    case True
    with Cons.prems have "k y < k x" by simp
    moreover from Cons have "sorted (map k (insert_before later x ys))" by simp
    ultimately show ?thesis
      using True Cons.prems by (auto simp: set_insert_before)
  next
    case False
    with Cons.prems have "k x \<le> k y" by auto
    with False Cons.prems show ?thesis by auto
  qed
qed

lemma sorted_stable_sort:
  fixes k :: "'a \<Rightarrow> 'b::linorder"
  assumes "\<forall>x \<in> set xs. \<forall>y \<in> set xs. later x y \<longleftrightarrow> k y < k x"
  shows "sorted (map k (stable_sort later xs))"
  using assms
proof (induction xs)
  case Nil
  show ?case by (simp add: stable_sort_def)
next
  case (Cons x xs)
  then have "sorted (map k (stable_sort later xs))" by simp
  moreover from Cons.prems have "\<forall>y \<in> set (stable_sort later xs). later x y \<longleftrightarrow> k y < k x"
    by (simp add: set_stable_sort)
  ultimately have "sorted (map k (insert_before later x (stable_sort later xs)))"
    by (rule sorted_insert_before)
  then show ?case by (simp add: stable_sort_def)
qed



lemma eval_date_cond:
  "eval_cond d r (c, args) \<Longrightarrow> c = DateBetween \<or> c = DateSince \<Longrightarrow> row_load_date r \<noteq> None"
  by (cases "(d, r, (c, args))" rule: eval_cond.cases) (auto split: option.splits)


lemma loan_select_bound:
  assumes "bind_params conds params = Some (bs, [JNum (Fin l)])" and "list_all cond_ok bs" and "0 \<le> l"
  shows "loan_select d t conds b params
           = Inr (take (nat \<lfloor>l\<rfloor>)
                   (stable_sort (order_later b)
                     (filter (\<lambda>r. list_all (eval_cond d r) bs \<and> latest_snapshot (loan_table d t) r)
                        (loan_table d t))))"
  using assms by (simp add: loan_select_def)





lemma snapshot_cols:
  "row_load_date (snapshot tel ts) = Some 99"
  "row_loan_type (snapshot tel ts) = Some ''Nano 7D''"
  "row_denom (snapshot tel ts) = JNum (Fin 5)"
  "row_telco (snapshot tel ts) = Some tel"
  "row_processed_at (snapshot tel ts) = Some ts"
  by (simp_all add: snapshot_def blank_row_def)

lemma snapshot_eq: "snapshot tel ts = snapshot tel' ts' \<longleftrightarrow> tel = tel' \<and> ts = ts'"
  by (auto simp: snapshot_def blank_row_def)

lemma sample_tables:
  "loan_table sample_db Airtel_loan_data = [snapshot ''Airtel'' 10, snapshot ''Airtel'' 20]"
  "loan_table sample_db MTN_loan_data = [snapshot ''MTN'' 30]"
  "curdate sample_db = 100"
  by (simp_all add: sample_db_def)



section \<open>The merged result\<close>

lemma date_later_key:
  assumes "date x \<noteq> None" and "date y \<noteq> None"
  shows "positive (date_diff x y) \<longleftrightarrow> - the (date y) < - the (date x)"
  using assms by (auto simp: date_diff_def)

lemma sort_by_date_descending:
  assumes "\<forall>x \<in> set xs. date x \<noteq> None"
  shows "\<exists>ds. map date (sort_by_date xs) = map Some ds \<and> sorted_wrt (\<ge>) ds"
proof -
  have "\<forall>x \<in> set xs. \<forall>y \<in> set xs. positive (date_diff x y) \<longleftrightarrow> - the (date y) < - the (date x)"
    using assms by (simp add: date_later_key)
  then have "sorted (map (\<lambda>x. - the (date x)) (sort_by_date xs))"
    unfolding sort_by_date_def by (rule sorted_stable_sort)
  then have s: "sorted_wrt (\<ge>) (map (the \<circ> date) (sort_by_date xs))"
    by (simp add: sorted_map sorted_wrt_map)
  have "\<forall>x \<in> set (sort_by_date xs). date x \<noteq> None"
    using assms by (simp add: sort_by_date_def set_stable_sort)
  then have "map date (sort_by_date xs) = map Some (map (the \<circ> date) (sort_by_date xs))"
    by (induction "sort_by_date xs") auto
  with s show ?thesis by blast
qed

lemma mset_sort_by_date: "mset (sort_by_date xs) = mset xs"
  by (simp add: sort_by_date_def mset_stable_sort)

lemma telco_conds_both: "toLowerCase tel = ''both'' \<Longrightarrow> telco_conds tel = []"
  by (simp add: telco_conds_def)

lemma select_tables_both:
  "toLowerCase tel = ''both'' \<Longrightarrow> select_tables tel = [Airtel_loan_data, MTN_loan_data]"
  by (simp add: select_tables_def)

lemma loan_where_bound:
  assumes "telco_conds tel = []"
  shows "\<exists>bs. bind_params (fst (loan_where q tel days)) (snd (loan_where q tel days) @ [JNum (Fin l)])
                = Some (bs, [JNum (Fin l)])
            \<and> list_all cond_ok bs
            \<and> (\<forall>r. list_all (eval_cond d r) bs \<longrightarrow> row_load_date r \<noteq> None)"
proof -
  obtain n where n: "days_int days = Fin (of_int n)"
    using days_int_integer [of days] by blast
  show ?thesis
    using assms n
    by (auto simp: loan_where_def date_conds_def Let_def split: option.splits)
qed

lemma by_type_where_bound:
  assumes "telco_conds tel = []"
  shows "\<exists>bs. bind_params (fst (by_type_where q v tel days)) (snd (by_type_where q v tel days) @ [JNum (Fin l)])
                = Some (bs, [JNum (Fin l)])
            \<and> list_all cond_ok bs
            \<and> (\<forall>r. list_all (eval_cond d r) bs \<longrightarrow> row_load_date r \<noteq> None)"
proof -
  obtain n where n: "days_int days = Fin (of_int n)"
    using days_int_integer [of days] by blast
  show ?thesis
    using assms n
    by (auto simp: by_type_where_def date_conds_def Let_def split: option.splits)
qed

lemma converted_dates:
  assumes "\<forall>r \<in> set rows. row_load_date r \<noteq> None"
  shows "\<forall>x \<in> set (convertToDashboardFormat rows). date x \<noteq> None"
  using assms by (auto simp: convertToDashboardFormat_def convert_row_fields)

lemma selected_dates:
  assumes "\<forall>r. list_all (eval_cond d r) bs \<longrightarrow> row_load_date r \<noteq> None"
  shows "\<forall>r \<in> set (take n (stable_sort later
            (filter (\<lambda>r. list_all (eval_cond d r) bs \<and> latest_snapshot tbl r) tbl))).
           row_load_date r \<noteq> None"
proof
  fix r
  assume "r \<in> set (take n (stable_sort later
            (filter (\<lambda>r. list_all (eval_cond d r) bs \<and> latest_snapshot tbl r) tbl)))"
  then have "r \<in> set (stable_sort later
            (filter (\<lambda>r. list_all (eval_cond d r) bs \<and> latest_snapshot tbl r) tbl))"
    by (rule in_set_takeD)
  then have "list_all (eval_cond d r) bs"
    by (simp add: set_stable_sort)
  with assms show "row_load_date r \<noteq> None" by simp
qed

text \<open>The two results of a statement that the store accepts, and their merge.\<close>

lemma two_table_results:
  assumes b1: "bind_params conds params = Some (bs, [JNum (Fin l)])"
    and b2: "list_all cond_ok bs"
    and l0: "0 \<le> l"
    and b3: "\<forall>r. list_all (eval_cond d r) bs \<longrightarrow> row_load_date r \<noteq> None"
  shows "\<exists>ra rm.
           loan_select d Airtel_loan_data conds b params = Inr ra
           \<and> loan_select d MTN_loan_data conds b params = Inr rm
           \<and> length ra \<le> nat \<lfloor>l\<rfloor> \<and> length rm \<le> nat \<lfloor>l\<rfloor>
           \<and> length (convertToDashboardFormat ra @ convertToDashboardFormat rm) = length ra + length rm
           \<and> length (sort_by_date (convertToDashboardFormat ra @ convertToDashboardFormat rm))
                = length ra + length rm
           \<and> mset (sort_by_date (convertToDashboardFormat ra @ convertToDashboardFormat rm))
                = mset (convertToDashboardFormat ra @ convertToDashboardFormat rm)
           \<and> (\<exists>ds. map date (sort_by_date (convertToDashboardFormat ra @ convertToDashboardFormat rm))
                       = map Some ds
                     \<and> sorted_wrt (\<ge>) ds)"
proof -
  define sel where "sel = (\<lambda>t. take (nat \<lfloor>l\<rfloor>)
                   (stable_sort (order_later b)
                     (filter (\<lambda>r. list_all (eval_cond d r) bs \<and> latest_snapshot (loan_table d t) r)
                        (loan_table d t))))"
  define ra where "ra = sel Airtel_loan_data"
  define rm where "rm = sel MTN_loan_data"
  define merged where "merged = convertToDashboardFormat ra @ convertToDashboardFormat rm"
  have sa: "loan_select d Airtel_loan_data conds b params = Inr ra"
    unfolding ra_def sel_def using b1 b2 l0 by (rule loan_select_bound)
  have sm: "loan_select d MTN_loan_data conds b params = Inr rm"
    unfolding rm_def sel_def using b1 b2 l0 by (rule loan_select_bound)
  have la: "length ra \<le> nat \<lfloor>l\<rfloor>" and lm: "length rm \<le> nat \<lfloor>l\<rfloor>"
    by (simp_all add: ra_def rm_def sel_def)
  have da: "\<forall>r \<in> set ra. row_load_date r \<noteq> None"
    unfolding ra_def sel_def using b3 by (rule selected_dates)
  have dm: "\<forall>r \<in> set rm. row_load_date r \<noteq> None"
    unfolding rm_def sel_def using b3 by (rule selected_dates)
  have conv: "\<forall>x \<in> set merged. date x \<noteq> None"
    unfolding merged_def using converted_dates [OF da] converted_dates [OF dm] by auto
  have ms: "mset (sort_by_date merged) = mset merged"
    by (rule mset_sort_by_date)
  have len: "length merged = length ra + length rm"
    by (simp add: merged_def convertToDashboardFormat_def)
  from ms have "size (mset (sort_by_date merged)) = size (mset merged)"
    by (rule arg_cong)
  with len have ld: "length (sort_by_date merged) = length ra + length rm"
    by simp
  have sorted: "\<exists>ds. map date (sort_by_date merged) = map Some ds \<and> sorted_wrt (\<ge>) ds"
    using conv by (rule sort_by_date_descending)
  from sa sm la lm len ld ms sorted show ?thesis
    unfolding merged_def by blast
qed

lemma loan_data_both:
  assumes "toLowerCase (default_to ''both'' (q_telco q)) = ''both''"
    and "loan_select d Airtel_loan_data
           (fst (loan_where q (default_to ''both'' (q_telco q)) (default_to ''7'' (q_days q)))) True
           (snd (loan_where q (default_to ''both'' (q_telco q)) (default_to ''7'' (q_days q)))
              @ [JNum (parseInt_str (default_to ''1000'' (q_limit q)))]) = Inr ra"
    and "loan_select d MTN_loan_data
           (fst (loan_where q (default_to ''both'' (q_telco q)) (default_to ''7'' (q_days q)))) True
           (snd (loan_where q (default_to ''both'' (q_telco q)) (default_to ''7'' (q_days q)))
              @ [JNum (parseInt_str (default_to ''1000'' (q_limit q)))]) = Inr rm"
  shows "loan_data d q =
      (\<lparr>status = 200,
        body = LoanBody (sort_by_date (convertToDashboardFormat ra @ convertToDashboardFormat rm)) None
                 (length (convertToDashboardFormat ra @ convertToDashboardFormat rm))
                 \<lparr>f_loan_type = map_option StrVal (q_loan_type q),
                  f_telco = default_to ''both'' (q_telco q),
                  f_days = parseInt_str (default_to ''7'' (q_days q)),
                  f_start_date = q_start_date q, f_end_date = q_end_date q\<rparr>\<rparr>,
       [(LoanSelect Airtel_loan_data
           (fst (loan_where q (default_to ''both'' (q_telco q)) (default_to ''7'' (q_days q)))) True,
         snd (loan_where q (default_to ''both'' (q_telco q)) (default_to ''7'' (q_days q)))
           @ [JNum (parseInt_str (default_to ''1000'' (q_limit q)))]),
        (LoanSelect MTN_loan_data
           (fst (loan_where q (default_to ''both'' (q_telco q)) (default_to ''7'' (q_days q)))) True,
         snd (loan_where q (default_to ''both'' (q_telco q)) (default_to ''7'' (q_days q)))
           @ [JNum (parseInt_str (default_to ''1000'' (q_limit q)))])])"
  by (simp add: loan_data_def Let_def select_tables_both [OF assms(1)] assms(2,3))

lemma loan_data_by_type_both:
  assumes "toLowerCase (default_to ''both'' (q_telco q)) = ''both''"
    and "loanTypeMap loanType = Some v"
    and "loan_select d Airtel_loan_data
           (fst (by_type_where q v (default_to ''both'' (q_telco q)) (default_to ''7'' (q_days q)))) False
           (snd (by_type_where q v (default_to ''both'' (q_telco q)) (default_to ''7'' (q_days q)))
              @ [JNum (parseInt_str (default_to ''500'' (q_limit q)))]) = Inr ra"
    and "loan_select d MTN_loan_data
           (fst (by_type_where q v (default_to ''both'' (q_telco q)) (default_to ''7'' (q_days q)))) False
           (snd (by_type_where q v (default_to ''both'' (q_telco q)) (default_to ''7'' (q_days q)))
              @ [JNum (parseInt_str (default_to ''500'' (q_limit q)))]) = Inr rm"
  shows "loan_data_by_type d loanType q =
      (\<lparr>status = 200,
        body = LoanBody (sort_by_date (convertToDashboardFormat ra @ convertToDashboardFormat rm)) (Some v)
                 (length (convertToDashboardFormat ra @ convertToDashboardFormat rm))
                 \<lparr>f_loan_type = Some v,
                  f_telco = default_to ''both'' (q_telco q),
                  f_days = parseInt_str (default_to ''7'' (q_days q)),
                  f_start_date = q_start_date q, f_end_date = q_end_date q\<rparr>\<rparr>,
       [(LoanSelect Airtel_loan_data
           (fst (by_type_where q v (default_to ''both'' (q_telco q)) (default_to ''7'' (q_days q)))) False,
         snd (by_type_where q v (default_to ''both'' (q_telco q)) (default_to ''7'' (q_days q)))
           @ [JNum (parseInt_str (default_to ''500'' (q_limit q)))]),
        (LoanSelect MTN_loan_data
           (fst (by_type_where q v (default_to ''both'' (q_telco q)) (default_to ''7'' (q_days q)))) False,
         snd (by_type_where q v (default_to ''both'' (q_telco q)) (default_to ''7'' (q_days q)))
           @ [JNum (parseInt_str (default_to ''500'' (q_limit q)))])])"
  by (simp add: loan_data_by_type_def Let_def select_tables_both [OF assms(1)] assms(2,3,4))

text \<open>
  Claim C6. When \<open>telco\<close> is \<open>both\<close> (in any letter case, or absent) and \<open>limit\<close> reads
  as a number that is not negative, \<open>GET /api/loan-data\<close> sends one statement to each
  table, with the same conditions and parameters, and answers with status 200. Each
  table's result has at most \<open>limit\<close> rows; \<open>count\<close> is the sum of the two sizes and the
  length of \<open>data\<close>; \<open>data\<close> holds the converted rows of the first result and of the
  second, rearranged so that the dates descend. The same holds for
  \<open>GET /api/loan-data/:loanType\<close> with a known loan type.
\<close>

theorem both_tables_merged:
  assumes "toLowerCase (default_to ''both'' (q_telco q)) = ''both''"
  shows "(\<forall>l. parseInt_str (default_to ''1000'' (q_limit q)) = Fin l \<and> 0 \<le> l \<longrightarrow>
           (\<exists>conds params ra rm data fs.
              loan_data d q =
                (\<lparr>status = 200, body = LoanBody data None (length ra + length rm) fs\<rparr>,
                 [(LoanSelect Airtel_loan_data conds True, params),
                  (LoanSelect MTN_loan_data conds True, params)])
              \<and> conds = fst (loan_where q (default_to ''both'' (q_telco q)) (default_to ''7'' (q_days q)))
              \<and> params = snd (loan_where q (default_to ''both'' (q_telco q)) (default_to ''7'' (q_days q)))
                           @ [JNum (Fin l)]
              \<and> loan_select d Airtel_loan_data conds True params = Inr ra
              \<and> loan_select d MTN_loan_data conds True params = Inr rm
              \<and> length ra \<le> nat \<lfloor>l\<rfloor> \<and> length rm \<le> nat \<lfloor>l\<rfloor>
              \<and> length data = length ra + length rm
              \<and> mset data = mset (convertToDashboardFormat ra @ convertToDashboardFormat rm)
              \<and> (\<exists>ds. map date data = map Some ds \<and> sorted_wrt (\<ge>) ds)))
       \<and> (\<forall>l v. loanTypeMap loanType = Some v
             \<and> parseInt_str (default_to ''500'' (q_limit q)) = Fin l \<and> 0 \<le> l \<longrightarrow>
           (\<exists>conds params ra rm data fs.
              loan_data_by_type d loanType q =
                (\<lparr>status = 200, body = LoanBody data (Some v) (length ra + length rm) fs\<rparr>,
                 [(LoanSelect Airtel_loan_data conds False, params),
                  (LoanSelect MTN_loan_data conds False, params)])
              \<and> conds = fst (by_type_where q v (default_to ''both'' (q_telco q)) (default_to ''7'' (q_days q)))
              \<and> params = snd (by_type_where q v (default_to ''both'' (q_telco q)) (default_to ''7'' (q_days q)))
                           @ [JNum (Fin l)]
              \<and> loan_select d Airtel_loan_data conds False params = Inr ra
              \<and> loan_select d MTN_loan_data conds False params = Inr rm
              \<and> length ra \<le> nat \<lfloor>l\<rfloor> \<and> length rm \<le> nat \<lfloor>l\<rfloor>
              \<and> length data = length ra + length rm
              \<and> mset data = mset (convertToDashboardFormat ra @ convertToDashboardFormat rm)
              \<and> (\<exists>ds. map date data = map Some ds \<and> sorted_wrt (\<ge>) ds)))"
proof (intro conjI allI impI)
  fix l
  assume h: "parseInt_str (default_to ''1000'' (q_limit q)) = Fin l \<and> 0 \<le> l"
  then have pl: "parseInt_str (default_to ''1000'' (q_limit q)) = Fin l" and l0: "0 \<le> l"
    by simp_all
  define conds where "conds = fst (loan_where q (default_to ''both'' (q_telco q)) (default_to ''7'' (q_days q)))"
  define params where "params = snd (loan_where q (default_to ''both'' (q_telco q)) (default_to ''7'' (q_days q)))
                                  @ [JNum (Fin l)]"
  from loan_where_bound [OF telco_conds_both [OF assms], of q "default_to ''7'' (q_days q)" l d]
  obtain bs where b1: "bind_params conds params = Some (bs, [JNum (Fin l)])"
    and b2: "list_all cond_ok bs"
    and b3: "\<forall>r. list_all (eval_cond d r) bs \<longrightarrow> row_load_date r \<noteq> None"
    unfolding conds_def params_def by (elim exE conjE)
  from two_table_results [OF b1 b2 l0 b3, of True]
  obtain ra rm where all:
    "loan_select d Airtel_loan_data conds True params = Inr ra
     \<and> loan_select d MTN_loan_data conds True params = Inr rm
     \<and> length ra \<le> nat \<lfloor>l\<rfloor> \<and> length rm \<le> nat \<lfloor>l\<rfloor>
     \<and> length (convertToDashboardFormat ra @ convertToDashboardFormat rm) = length ra + length rm
     \<and> length (sort_by_date (convertToDashboardFormat ra @ convertToDashboardFormat rm))
          = length ra + length rm
     \<and> mset (sort_by_date (convertToDashboardFormat ra @ convertToDashboardFormat rm))
          = mset (convertToDashboardFormat ra @ convertToDashboardFormat rm)
     \<and> (\<exists>ds. map date (sort_by_date (convertToDashboardFormat ra @ convertToDashboardFormat rm))
                 = map Some ds
               \<and> sorted_wrt (\<ge>) ds)"
    by (elim exE)
  note sa = all [THEN conjunct1]
    and sm = all [THEN conjunct2, THEN conjunct1]
    and la = all [THEN conjunct2, THEN conjunct2, THEN conjunct1]
    and lm = all [THEN conjunct2, THEN conjunct2, THEN conjunct2, THEN conjunct1]
    and len = all [THEN conjunct2, THEN conjunct2, THEN conjunct2, THEN conjunct2, THEN conjunct1]
    and ld = all [THEN conjunct2, THEN conjunct2, THEN conjunct2, THEN conjunct2, THEN conjunct2,
                  THEN conjunct1]
    and ms = all [THEN conjunct2, THEN conjunct2, THEN conjunct2, THEN conjunct2, THEN conjunct2,
                  THEN conjunct2, THEN conjunct1]
    and sorted = all [THEN conjunct2, THEN conjunct2, THEN conjunct2, THEN conjunct2, THEN conjunct2,
                      THEN conjunct2, THEN conjunct2]
  from sa sm have run: "loan_data d q =
      (\<lparr>status = 200,
        body = LoanBody (sort_by_date (convertToDashboardFormat ra @ convertToDashboardFormat rm)) None
                 (length ra + length rm)
                 \<lparr>f_loan_type = map_option StrVal (q_loan_type q),
                  f_telco = default_to ''both'' (q_telco q),
                  f_days = parseInt_str (default_to ''7'' (q_days q)),
                  f_start_date = q_start_date q, f_end_date = q_end_date q\<rparr>\<rparr>,
       [(LoanSelect Airtel_loan_data conds True, params),
        (LoanSelect MTN_loan_data conds True, params)])"
    unfolding conds_def params_def len [symmetric] pl [symmetric]
    by (rule loan_data_both [OF assms])
  from run conds_def params_def sa sm la lm ld ms sorted
  show "\<exists>conds params ra rm data fs.
              loan_data d q =
                (\<lparr>status = 200, body = LoanBody data None (length ra + length rm) fs\<rparr>,
                 [(LoanSelect Airtel_loan_data conds True, params),
                  (LoanSelect MTN_loan_data conds True, params)])
              \<and> conds = fst (loan_where q (default_to ''both'' (q_telco q)) (default_to ''7'' (q_days q)))
              \<and> params = snd (loan_where q (default_to ''both'' (q_telco q)) (default_to ''7'' (q_days q)))
                           @ [JNum (Fin l)]
              \<and> loan_select d Airtel_loan_data conds True params = Inr ra
              \<and> loan_select d MTN_loan_data conds True params = Inr rm
              \<and> length ra \<le> nat \<lfloor>l\<rfloor> \<and> length rm \<le> nat \<lfloor>l\<rfloor>
              \<and> length data = length ra + length rm
              \<and> mset data = mset (convertToDashboardFormat ra @ convertToDashboardFormat rm)
              \<and> (\<exists>ds. map date data = map Some ds \<and> sorted_wrt (\<ge>) ds)"
    by blast
next
  fix l v
  assume h: "loanTypeMap loanType = Some v
             \<and> parseInt_str (default_to ''500'' (q_limit q)) = Fin l \<and> 0 \<le> l"
  then have lt: "loanTypeMap loanType = Some v"
    and pl: "parseInt_str (default_to ''500'' (q_limit q)) = Fin l" and l0: "0 \<le> l"
    by simp_all
  define conds where "conds = fst (by_type_where q v (default_to ''both'' (q_telco q)) (default_to ''7'' (q_days q)))"
  define params where "params = snd (by_type_where q v (default_to ''both'' (q_telco q)) (default_to ''7'' (q_days q)))
                                  @ [JNum (Fin l)]"
  from by_type_where_bound [OF telco_conds_both [OF assms], of q v "default_to ''7'' (q_days q)" l d]
  obtain bs where b1: "bind_params conds params = Some (bs, [JNum (Fin l)])"
    and b2: "list_all cond_ok bs"
    and b3: "\<forall>r. list_all (eval_cond d r) bs \<longrightarrow> row_load_date r \<noteq> None"
    unfolding conds_def params_def by (elim exE conjE)
  from two_table_results [OF b1 b2 l0 b3, of False]
  obtain ra rm where all:
    "loan_select d Airtel_loan_data conds False params = Inr ra
     \<and> loan_select d MTN_loan_data conds False params = Inr rm
     \<and> length ra \<le> nat \<lfloor>l\<rfloor> \<and> length rm \<le> nat \<lfloor>l\<rfloor>
     \<and> length (convertToDashboardFormat ra @ convertToDashboardFormat rm) = length ra + length rm
     \<and> length (sort_by_date (convertToDashboardFormat ra @ convertToDashboardFormat rm))
          = length ra + length rm
     \<and> mset (sort_by_date (convertToDashboardFormat ra @ convertToDashboardFormat rm))
          = mset (convertToDashboardFormat ra @ convertToDashboardFormat rm)
     \<and> (\<exists>ds. map date (sort_by_date (convertToDashboardFormat ra @ convertToDashboardFormat rm))
                 = map Some ds
               \<and> sorted_wrt (\<ge>) ds)"
    by (elim exE)
  note sa = all [THEN conjunct1]
    and sm = all [THEN conjunct2, THEN conjunct1]
    and la = all [THEN conjunct2, THEN conjunct2, THEN conjunct1]
    and lm = all [THEN conjunct2, THEN conjunct2, THEN conjunct2, THEN conjunct1]
    and len = all [THEN conjunct2, THEN conjunct2, THEN conjunct2, THEN conjunct2, THEN conjunct1]
    and ld = all [THEN conjunct2, THEN conjunct2, THEN conjunct2, THEN conjunct2, THEN conjunct2,
                  THEN conjunct1]
    and ms = all [THEN conjunct2, THEN conjunct2, THEN conjunct2, THEN conjunct2, THEN conjunct2,
                  THEN conjunct2, THEN conjunct1]
    and sorted = all [THEN conjunct2, THEN conjunct2, THEN conjunct2, THEN conjunct2, THEN conjunct2,
                      THEN conjunct2, THEN conjunct2]
  from sa sm have run: "loan_data_by_type d loanType q =
      (\<lparr>status = 200,
        body = LoanBody (sort_by_date (convertToDashboardFormat ra @ convertToDashboardFormat rm)) (Some v)
                 (length ra + length rm)
                 \<lparr>f_loan_type = Some v,
                  f_telco = default_to ''both'' (q_telco q),
                  f_days = parseInt_str (default_to ''7'' (q_days q)),
                  f_start_date = q_start_date q, f_end_date = q_end_date q\<rparr>\<rparr>,
       [(LoanSelect Airtel_loan_data conds False, params),
        (LoanSelect MTN_loan_data conds False, params)])"
    unfolding conds_def params_def len [symmetric] pl [symmetric]
    by (rule loan_data_by_type_both [OF assms lt])
  from run conds_def params_def sa sm la lm ld ms sorted
  show "\<exists>conds params ra rm data fs.
              loan_data_by_type d loanType q =
                (\<lparr>status = 200, body = LoanBody data (Some v) (length ra + length rm) fs\<rparr>,
                 [(LoanSelect Airtel_loan_data conds False, params),
                  (LoanSelect MTN_loan_data conds False, params)])
              \<and> conds = fst (by_type_where q v (default_to ''both'' (q_telco q)) (default_to ''7'' (q_days q)))
              \<and> params = snd (by_type_where q v (default_to ''both'' (q_telco q)) (default_to ''7'' (q_days q)))
                           @ [JNum (Fin l)]
              \<and> loan_select d Airtel_loan_data conds False params = Inr ra
              \<and> loan_select d MTN_loan_data conds False params = Inr rm
              \<and> length ra \<le> nat \<lfloor>l\<rfloor> \<and> length rm \<le> nat \<lfloor>l\<rfloor>
              \<and> length data = length ra + length rm
              \<and> mset data = mset (convertToDashboardFormat ra @ convertToDashboardFormat rm)
              \<and> (\<exists>ds. map date data = map Some ds \<and> sorted_wrt (\<ge>) ds)"
    by blast
qed

lemma sample_selects_limit_one:
  "loan_select sample_db Airtel_loan_data [DateSince] True [JNum (Fin 7), JNum (Fin 1)]
     = Inr [snapshot ''Airtel'' 20]"
  "loan_select sample_db MTN_loan_data [DateSince] True [JNum (Fin 7), JNum (Fin 1)]
     = Inr [snapshot ''MTN'' 30]"
  by (simp_all add: loan_select_def sample_tables snapshot_cols snapshot_eq latest_snapshot_def same_key_def
        stable_sort_def order_later_def)

lemma limit_one_where:
  "loan_where (no_params\<lparr>q_limit := Some ''1''\<rparr>)
      (default_to ''both'' (q_telco (no_params\<lparr>q_limit := Some ''1''\<rparr>)))
      (default_to ''7'' (q_days (no_params\<lparr>q_limit := Some ''1''\<rparr>)))
     = ([DateSince], [JNum (Fin 7)])"
  by (simp add: loan_where_def date_conds_def telco_conds_def no_params_fields default_to_def truthy_str_def
        days_int_def js_or_def lower_eval parse_eval)

theorem both_tables_merged_witness:
  "toLowerCase (default_to ''both'' (q_telco (no_params\<lparr>q_limit := Some ''1''\<rparr>))) = ''both''
   \<and> parseInt_str (default_to ''1000'' (q_limit (no_params\<lparr>q_limit := Some ''1''\<rparr>))) = Fin 1
   \<and> (\<exists>data fs sent.
         loan_data sample_db (no_params\<lparr>q_limit := Some ''1''\<rparr>)
           = (\<lparr>status = 200, body = LoanBody data None 2 fs\<rparr>, sent)
         \<and> length data = 2)"
proof -
  have h1: "toLowerCase (default_to ''both'' (q_telco (no_params\<lparr>q_limit := Some ''1''\<rparr>))) = ''both''"
    by (simp add: no_params_fields default_to_def lower_eval)
  have h2: "parseInt_str (default_to ''1000'' (q_limit (no_params\<lparr>q_limit := Some ''1''\<rparr>))) = Fin 1"
    by (simp add: default_to_def parse_eval)
  have h3: "parseInt_str (default_to ''1000'' (q_limit (no_params\<lparr>q_limit := Some ''1''\<rparr>))) = Fin 1
            \<and> (0::rat) \<le> 1"
    using h2 by simp
  from both_tables_merged [OF h1, of sample_db "''7''", THEN conjunct1, rule_format, OF h3]
  obtain conds params ra rm data fs where
    run: "loan_data sample_db (no_params\<lparr>q_limit := Some ''1''\<rparr>) =
             (\<lparr>status = 200, body = LoanBody data None (length ra + length rm) fs\<rparr>,
              [(LoanSelect Airtel_loan_data conds True, params),
               (LoanSelect MTN_loan_data conds True, params)])"
    and c: "conds = fst (loan_where (no_params\<lparr>q_limit := Some ''1''\<rparr>)
                (default_to ''both'' (q_telco (no_params\<lparr>q_limit := Some ''1''\<rparr>)))
                (default_to ''7'' (q_days (no_params\<lparr>q_limit := Some ''1''\<rparr>))))"
    and p: "params = snd (loan_where (no_params\<lparr>q_limit := Some ''1''\<rparr>)
                (default_to ''both'' (q_telco (no_params\<lparr>q_limit := Some ''1''\<rparr>)))
                (default_to ''7'' (q_days (no_params\<lparr>q_limit := Some ''1''\<rparr>)))) @ [JNum (Fin 1)]"
    and sa: "loan_select sample_db Airtel_loan_data conds True params = Inr ra"
    and sm: "loan_select sample_db MTN_loan_data conds True params = Inr rm"
    and ld: "length data = length ra + length rm"
    by (elim exE conjE)
  from c [unfolded limit_one_where] p [unfolded limit_one_where]
  have "conds = [DateSince]" and "params = [JNum (Fin 7), JNum (Fin 1)]"
    by simp_all
  with sa sm have "ra = [snapshot ''Airtel'' 20]" and "rm = [snapshot ''MTN'' 30]"
    by (simp_all add: sample_selects_limit_one)
  then have "length ra + length rm = 2"
    by simp
  with run ld have "\<exists>data fs sent.
         loan_data sample_db (no_params\<lparr>q_limit := Some ''1''\<rparr>)
           = (\<lparr>status = 200, body = LoanBody data None 2 fs\<rparr>, sent)
         \<and> length data = 2"
    by (intro exI [of _ data] exI [of _ fs] exI) simp
  with h1 h2 show ?thesis
    by (intro conjI)
qed

section \<open>The order of the NPL categories\<close>

lemma npl_select_sorted:
  "sorted (map (\<lambda>r. npl_rank (npl_loan_type r)) (npl_select d))"
  unfolding npl_select_def by (rule sorted_stable_sort) simp

lemma npl_select_mset: "mset (npl_select d) = mset (npl_joined d)"
  by (simp add: npl_select_def mset_stable_sort)

lemma named_ranks:
  "npl_rank (Some ''7 Days Loan'') = 1" "npl_rank (Some ''14 Days Loan'') = 2"
  "npl_rank (Some ''21 Days Loan'') = 3" "npl_rank (Some ''30 Days Loan'') = 4"
  "npl_rank (Some ''Grand Total'') = 5"
  by (simp_all add: npl_rank_def)

lemma other_rank:
  "x \<notin> {Some ''7 Days Loan'', Some ''14 Days Loan'', Some ''21 Days Loan'', Some ''30 Days Loan'',
         Some ''Grand Total''} \<Longrightarrow> npl_rank x = 6"
  by (simp add: npl_rank_def)

text \<open>
  Claim C9. When the rows of the NPL result carry, in any order, the loan types
  \<open>7 Days Loan\<close>, \<open>14 Days Loan\<close>, \<open>21 Days Loan\<close>, \<open>30 Days Loan\<close>, \<open>Grand Total\<close> and one
  other value (a NULL included), the \<open>npl_data\<close> array lists them in exactly this order,
  the other value last.
\<close>

theorem npl_category_order:
  assumes "mset (map npl_loan_type (npl_joined d))
             = mset [Some ''7 Days Loan'', Some ''14 Days Loan'', Some ''21 Days Loan'',
                     Some ''30 Days Loan'', Some ''Grand Total'', x]"
    and "x \<notin> {Some ''7 Days Loan'', Some ''14 Days Loan'', Some ''21 Days Loan'', Some ''30 Days Loan'',
               Some ''Grand Total''}"
  shows "\<exists>recs. npl_data d = (\<lparr>status = 200, body = NplBody recs\<rparr>, [(NplSelect, [])])
           \<and> map out_loan_type recs
               = [Some ''7 Days Loan'', Some ''14 Days Loan'', Some ''21 Days Loan'',
                  Some ''30 Days Loan'', Some ''Grand Total'', x]"
proof -
  define target where "target = [Some ''7 Days Loan'', Some ''14 Days Loan'', Some ''21 Days Loan'',
                     Some ''30 Days Loan'', Some ''Grand Total'', x]"
  define zs where "zs = map npl_loan_type (npl_select d)"
  have rt: "map npl_rank target = [1, 2, 3, 4, 5, 6]"
    unfolding target_def by (simp only: list.map named_ranks other_rank [OF assms(2)])
  have "mset zs = image_mset npl_loan_type (mset (npl_select d))"
    unfolding zs_def by (rule mset_map)
  also have "\<dots> = image_mset npl_loan_type (mset (npl_joined d))"
    by (simp only: npl_select_mset)
  also have "\<dots> = mset (map npl_loan_type (npl_joined d))"
    by (rule mset_map [symmetric])
  also have "\<dots> = mset target"
    unfolding target_def by (rule assms(1))
  finally have mz: "mset zs = mset target" .
  then have sz: "set zs = set target"
    by (rule mset_eq_setD)
  from mz have "image_mset npl_rank (mset zs) = image_mset npl_rank (mset target)"
    by (rule arg_cong)
  then have "mset (map npl_rank zs) = mset (map npl_rank target)"
    by (simp only: mset_map)
  then have "distinct (map npl_rank zs) \<longleftrightarrow> distinct (map npl_rank target)"
    by (rule mset_eq_imp_distinct_iff)
  moreover have dt: "distinct (map npl_rank target)" and st: "sorted (map npl_rank target)"
    unfolding rt by simp_all
  ultimately have dz: "distinct (map npl_rank zs)"
    by (simp only:)
  have "map npl_rank zs = map (\<lambda>r. npl_rank (npl_loan_type r)) (npl_select d)"
    unfolding zs_def by (simp only: map_map comp_def)
  with npl_select_sorted [of d] have so: "sorted (map npl_rank zs)"
    by (simp only:)
  from dt have "inj_on npl_rank (set target)"
    by (simp only: distinct_map)
  with sz have inj: "inj_on npl_rank (set zs \<union> set target)"
    by (simp only: Un_absorb)
  from inj so dz st dt sz have "zs = target"
    by (rule map_sorted_distinct_set_unique)
  moreover have "map out_loan_type (map format_npl (npl_select d)) = zs"
    unfolding zs_def by (simp add: format_npl_def comp_def)
  ultimately have out: "map out_loan_type (map format_npl (npl_select d)) = target"
    by (simp only:)
  have run: "npl_data d = (\<lparr>status = 200, body = NplBody (map format_npl (npl_select d))\<rparr>, [(NplSelect, [])])"
    by (rule npl_data_def)
  from run out [unfolded target_def] show ?thesis
    by (intro exI [of _ "map format_npl (npl_select d)"] conjI)
qed

lemma npl_db_joined:
  "map npl_loan_type (npl_joined npl_db)
     = [Some ''Grand Total'', Some ''60 Days Loan'', Some ''30 Days Loan'',
        Some ''7 Days Loan'', Some ''21 Days Loan'', Some ''14 Days Loan'']"
  by (simp add: npl_db_def category_row_def)

theorem npl_category_order_witness:
  "mset (map npl_loan_type (npl_joined npl_db))
     = mset [Some ''7 Days Loan'', Some ''14 Days Loan'', Some ''21 Days Loan'',
             Some ''30 Days Loan'', Some ''Grand Total'', Some ''60 Days Loan'']
   \<and> (\<exists>recs. npl_data npl_db = (\<lparr>status = 200, body = NplBody recs\<rparr>, [(NplSelect, [])])
         \<and> map out_loan_type recs
             = [Some ''7 Days Loan'', Some ''14 Days Loan'', Some ''21 Days Loan'',
                Some ''30 Days Loan'', Some ''Grand Total'', Some ''60 Days Loan''])"
proof -
  have h1: "mset (map npl_loan_type (npl_joined npl_db))
     = mset [Some ''7 Days Loan'', Some ''14 Days Loan'', Some ''21 Days Loan'',
             Some ''30 Days Loan'', Some ''Grand Total'', Some ''60 Days Loan'']"
    unfolding npl_db_joined by (simp add: add_mset_commute)
  have h2: "Some ''60 Days Loan'' \<notin> {Some ''7 Days Loan'', Some ''14 Days Loan'', Some ''21 Days Loan'',
               Some ''30 Days Loan'', Some ''Grand Total''}"
    by simp
  from h1 npl_category_order [OF h1 h2] show ?thesis
    by (rule conjI)
qed

end
